theory Spec2Isabelle
  imports Main "HOL-Library.Word"
begin

unbundle bit_operations_syntax

section \<open>Memory, machine words and C strings\<close>

text \<open>
  The program is kernel C++ for x86-64: integers are fixed-width and wrap around, multi-byte
  values are little-endian, and every pointer dereference reads raw memory. A region of
  memory (a heap buffer, or the kernel's address space) is a partial map from 64-bit
  addresses to bytes. The C code never checks a bound; a read outside the region is
  undefined behaviour there and is the value \<open>Inl BadAccess\<close> here, so that no
  theorem can rest on what such a read happens to return.
\<close>

type_synonym u8 = "8 word"
type_synonym u32 = "32 word"
type_synonym u64 = "64 word"

type_synonym mem = "u64 \<Rightarrow> u8 option"

datatype fault = BadAccess

datatype kern_return_t = KERN_SUCCESS | KERN_FAILURE

text \<open>A heap buffer seen as memory: offset 0 is its first byte, its length is its size.\<close>

definition buf_mem :: "u8 list \<Rightarrow> mem" where
  "buf_mem buf = (\<lambda>a. if uint a < int (length buf) then Some (buf ! unat a) else None)"

definition read_bytes :: "mem \<Rightarrow> u64 \<Rightarrow> nat \<Rightarrow> u8 list option" where
  "read_bytes rd a n = those (map (\<lambda>k. rd (a + of_nat k)) [0..<n])"

text \<open>Little-endian decoding, least significant byte first.\<close>

fun le_word :: "u8 list \<Rightarrow> 'a::len word" where
  "le_word [] = 0"
| "le_word (b # bs) = ucast b + 256 * le_word bs"

definition read_u32 :: "mem \<Rightarrow> u64 \<Rightarrow> fault + u32" where
  "read_u32 rd a = (case read_bytes rd a 4 of None \<Rightarrow> Inl BadAccess | Some bs \<Rightarrow> Inr (le_word bs))"

definition read_u64 :: "mem \<Rightarrow> u64 \<Rightarrow> fault + u64" where
  "read_u64 rd a = (case read_bytes rd a 8 of None \<Rightarrow> Inl BadAccess | Some bs \<Rightarrow> Inr (le_word bs))"

text \<open>
  A \<open>const char *\<close> argument or a string literal is the list of its bytes; the
  terminating NUL is implicit at the end of the list, and a zero byte inside the list
  terminates the string early, as it does in C.
\<close>

definition cstr :: "u8 list \<Rightarrow> u8 list" where
  "cstr s = takeWhile (\<lambda>c. c \<noteq> 0) s"

definition strlen :: "u8 list \<Rightarrow> nat" where
  "strlen s = length (cstr s)"

text \<open>
  \<open>strncmp(s1, s2, n)\<close> with \<open>s1\<close> a string as above and \<open>s2\<close> a pointer into memory:
  at most \<open>n\<close> positions are compared as unsigned bytes, the first difference decides,
  and equal NULs stop the comparison. The callers only test the result against 0, so the
  order of the two arguments matters for the sign alone.
\<close>

definition byte_diff :: "u8 \<Rightarrow> u8 \<Rightarrow> int" where
  "byte_diff d c = int (unat d) - int (unat c)"

fun strncmp :: "u8 list \<Rightarrow> mem \<Rightarrow> u64 \<Rightarrow> nat \<Rightarrow> fault + int" where
  "strncmp s rd a 0 = Inr 0"
| "strncmp s rd a (Suc n) =
     (case rd a of
        None \<Rightarrow> Inl BadAccess
      | Some c \<Rightarrow>
          (let d = (case s of [] \<Rightarrow> 0 | x # _ \<Rightarrow> x) in
           if d \<noteq> c then Inr (byte_diff d c)
           else if d = 0 then Inr 0
           else strncmp (tl s) rd (a + 1) n))"

section \<open>The image handle\<close>

text \<open>
  Modelled from the spec: the declaration of the class \<open>MachInfo\<close> (\<open>kern_mach.hpp\<close>),
  which is not among the sources. The fields are those the functions below read or
  write, under the names the code uses; their widths are those of the specification's
  data model. The two buffers are owned heap blocks (\<open>None\<close> is the null pointer);
  \<open>running_mh\<close> is a pointer into kernel memory, kept as an address with 0 for null. The
  two table offsets only ever receive the 32-bit fields of the \<open>LC_SYMTAB\<close> command and
  enter 64-bit arithmetic zero-extended, so a narrower declaration behaves the same.
\<close>

record MachInfo =
  isKernel :: bool
  fat_offset :: u64
  disk_text_addr :: u64
  running_text_addr :: u64
  kaslr_slide :: u64
  kaslr_slide_set :: bool
  linkedit_fileoff :: u64
  linkedit_size :: u64
  symboltable_fileoff :: u64
  symboltable_nr_symbols :: u32
  stringtable_fileoff :: u64
  linkedit_buf :: "u8 list option"
  file_buf :: "u8 list option"
  running_mh :: u64
  memory_size :: u64

section \<open>Symbol resolution\<close>

text \<open>
  \<open>struct nlist_64\<close> is 16 bytes: \<open>n_strx\<close> (u32) at offset 0, \<open>n_type\<close>, \<open>n_sect\<close>,
  \<open>n_desc\<close>, and \<open>n_value\<close> (u64) at offset 8.
\<close>

definition sizeof_nlist_64 :: u64 where
  "sizeof_nlist_64 = 16"

text \<open>
  The scan of \<open>solveSymbol\<close>, from record \<open>i\<close> on. Each round reads \<open>n_strx\<close> of record
  \<open>i\<close>, compares the requested name with the string it points to over
  \<open>strlen(symbol) + 1\<close> bytes, and on equality reads \<open>n_value\<close> and returns it plus the
  slide. The handle is passed through: the function is a non-const member.
\<close>

function solveSymbol_scan ::
  "MachInfo \<Rightarrow> mem \<Rightarrow> u64 \<Rightarrow> u64 \<Rightarrow> u8 list \<Rightarrow> nat \<Rightarrow> (fault + u64) \<times> MachInfo" where
  "solveSymbol_scan h rd symbolOff stringOff symbol i =
     (if i < unat (symboltable_nr_symbols h) then
        (let nlist64 = symbolOff + of_nat i * sizeof_nlist_64 in
         case read_u32 rd nlist64 of
           Inl f \<Rightarrow> (Inl f, h)
         | Inr n_strx \<Rightarrow>
             (case strncmp symbol rd (stringOff + ucast n_strx) (strlen symbol + 1) of
                Inl f \<Rightarrow> (Inl f, h)
              | Inr d \<Rightarrow>
                  if d = 0 then
                    (case read_u64 rd (nlist64 + 8) of
                       Inl f \<Rightarrow> (Inl f, h)
                     | Inr n_value \<Rightarrow> (Inr (n_value + kaslr_slide h), h))
                  else solveSymbol_scan h rd symbolOff stringOff symbol (Suc i)))
      else (Inr 0, h))"
  by pat_completeness auto
termination
  by (relation "measure (\<lambda>(h, rd, symbolOff, stringOff, symbol, i). unat (symboltable_nr_symbols h) - i)") auto

declare solveSymbol_scan.simps [simp del]

definition solveSymbol :: "MachInfo \<Rightarrow> u8 list \<Rightarrow> (fault + u64) \<times> MachInfo" where
  "solveSymbol h symbol =
     (case linkedit_buf h of
        None \<Rightarrow> (Inr 0, h)
      | Some buf \<Rightarrow>
          if symboltable_fileoff h = 0 then (Inr 0, h)
          else if \<not> kaslr_slide_set h then (Inr 0, h)
          else
            (let symbolOff = symboltable_fileoff h - linkedit_fileoff h in
             if symbolOff > symboltable_fileoff h then (Inr 0, h)
             else
               (let stringOff = stringtable_fileoff h - linkedit_fileoff h in
                if stringOff > stringtable_fileoff h then (Inr 0, h)
                else solveSymbol_scan h (buf_mem buf) symbolOff stringOff symbol 0)))"

section \<open>Walking the load commands of a Mach-O header\<close>

text \<open>
  Layouts of \<open><mach-o/loader.h>\<close>, all fields little-endian.
  \<open>mach_header_64\<close> (32 bytes): \<open>magic\<close> at 0, \<open>ncmds\<close> at 16.
  \<open>load_command\<close>: \<open>cmd\<close> at 0, \<open>cmdsize\<close> at 4.
  \<open>segment_command_64\<close>: \<open>segname[16]\<close> at 8, \<open>vmaddr\<close> at 24, \<open>fileoff\<close> at 40,
  \<open>filesize\<close> at 48.
  \<open>symtab_command\<close>: \<open>symoff\<close> at 8, \<open>nsyms\<close> at 12, \<open>stroff\<close> at 16.
\<close>

definition MH_MAGIC_64 :: u32 where
  "MH_MAGIC_64 = 0xFEEDFACF"

definition LC_SEGMENT_64 :: u32 where
  "LC_SEGMENT_64 = 0x19"

definition LC_SYMTAB :: u32 where
  "LC_SYMTAB = 0x2"

definition sizeof_mach_header_64 :: u64 where
  "sizeof_mach_header_64 = 32"

text \<open>The string literals \<open>"__TEXT"\<close> and \<open>"__LINKEDIT"\<close>.\<close>

definition SEG_TEXT :: "u8 list" where
  "SEG_TEXT = [0x5F, 0x5F, 0x54, 0x45, 0x58, 0x54]"

definition SEG_LINKEDIT :: "u8 list" where
  "SEG_LINKEDIT = [0x5F, 0x5F, 0x4C, 0x49, 0x4E, 0x4B, 0x45, 0x44, 0x49, 0x54]"

text \<open>
  The body of the loop of \<open>processMachHeader\<close> for the load command at \<open>addr\<close>: a
  64-bit segment named \<open>__TEXT\<close> gives the on-disk text address, one named
  \<open>__LINKEDIT\<close> the link-edit offset and size, and the symbol-table command the three
  table fields.
\<close>

definition processLoadCommand :: "MachInfo \<Rightarrow> mem \<Rightarrow> u64 \<Rightarrow> fault + MachInfo" where
  "processLoadCommand h rd addr =
     (case read_u32 rd addr of
        Inl f \<Rightarrow> Inl f
      | Inr cmd \<Rightarrow>
          if cmd = LC_SEGMENT_64 then
            (case strncmp SEG_TEXT rd (addr + 8) 16 of
               Inl f \<Rightarrow> Inl f
             | Inr d \<Rightarrow>
                 if d = 0 then
                   (case read_u64 rd (addr + 24) of
                      Inl f \<Rightarrow> Inl f
                    | Inr vmaddr \<Rightarrow> Inr (h\<lparr>disk_text_addr := vmaddr\<rparr>))
                 else
                   (case strncmp SEG_LINKEDIT rd (addr + 8) 16 of
                      Inl f \<Rightarrow> Inl f
                    | Inr d' \<Rightarrow>
                        if d' = 0 then
                          (case read_u64 rd (addr + 40) of
                             Inl f \<Rightarrow> Inl f
                           | Inr fileoff \<Rightarrow>
                               (case read_u64 rd (addr + 48) of
                                  Inl f \<Rightarrow> Inl f
                                | Inr filesize \<Rightarrow>
                                    Inr (h\<lparr>linkedit_fileoff := fileoff, linkedit_size := filesize\<rparr>)))
                        else Inr h))
          else if cmd = LC_SYMTAB then
            (case read_u32 rd (addr + 8) of
               Inl f \<Rightarrow> Inl f
             | Inr symoff \<Rightarrow>
                 (case read_u32 rd (addr + 12) of
                    Inl f \<Rightarrow> Inl f
                  | Inr nsyms \<Rightarrow>
                      (case read_u32 rd (addr + 16) of
                         Inl f \<Rightarrow> Inl f
                       | Inr stroff \<Rightarrow>
                           Inr (h\<lparr>symboltable_fileoff := ucast symoff,
                                  symboltable_nr_symbols := nsyms,
                                  stringtable_fileoff := ucast stroff\<rparr>))))
          else Inr h)"

text \<open>
  The loop itself: \<open>ncmds\<close> rounds, each ending with \<open>addr += loadCmd->cmdsize\<close>. Nothing
  looks at the value of \<open>cmdsize\<close> or compares \<open>addr\<close> with the size of the buffer.
\<close>

function processMachHeader_loop :: "MachInfo \<Rightarrow> mem \<Rightarrow> u32 \<Rightarrow> u64 \<Rightarrow> nat \<Rightarrow> fault + MachInfo" where
  "processMachHeader_loop h rd ncmds addr i =
     (if i < unat ncmds then
        (case processLoadCommand h rd addr of
           Inl f \<Rightarrow> Inl f
         | Inr h' \<Rightarrow>
             (case read_u32 rd (addr + 4) of
                Inl f \<Rightarrow> Inl f
              | Inr cmdsize \<Rightarrow> processMachHeader_loop h' rd ncmds (addr + ucast cmdsize) (Suc i)))
      else Inr h)"
  by pat_completeness auto
termination
  by (relation "measure (\<lambda>(h, rd, ncmds, addr, i). unat ncmds - i)") auto

declare processMachHeader_loop.simps [simp del]

text \<open>\<open>header\<close> is the buffer holding the first \<open>HeaderSize\<close> bytes of the file.\<close>

definition processMachHeader :: "MachInfo \<Rightarrow> u8 list \<Rightarrow> fault + MachInfo" where
  "processMachHeader h header =
     (case read_u32 (buf_mem header) 16 of
        Inl f \<Rightarrow> Inl f
      | Inr ncmds \<Rightarrow> processMachHeader_loop h (buf_mem header) ncmds sizeof_mach_header_64 0)"

section \<open>Processor state\<close>

text \<open>
  The processor as the code sees it: the base of the interrupt descriptor table (read by
  \<open>sidt\<close>), control register 0, and the interrupt flag (\<open>cli\<close>, \<open>sti\<close>). \<open>cr0_write\<close>
  is what the machine makes of a write to CR0: the new value of the register, given the
  old one and the value written. On bare hardware it is the value written; a hypervisor may
  keep some bits, which is what makes the check after the write in \<open>setWPBit\<close> able to
  fail. \<open>trace\<close> records the privileged instructions in the order they are executed.
\<close>

datatype cpu_event = CLI | STI | READ_CR0 | WRITE_CR0 u64

record cpu =
  idtr_base :: u64
  cr0 :: u64
  cr0_write :: "u64 \<Rightarrow> u64 \<Rightarrow> u64"
  interrupts :: bool
  trace :: "cpu_event list"

definition CR0_WP :: u64 where
  "CR0_WP = 0x00010000"

definition cli :: "cpu \<Rightarrow> cpu" where
  "cli c = c\<lparr>interrupts := False, trace := trace c @ [CLI]\<rparr>"

definition sti :: "cpu \<Rightarrow> cpu" where
  "sti c = c\<lparr>interrupts := True, trace := trace c @ [STI]\<rparr>"

definition get_cr0 :: "cpu \<Rightarrow> u64 \<times> cpu" where
  "get_cr0 c = (cr0 c, c\<lparr>trace := trace c @ [READ_CR0]\<rparr>)"

definition set_cr0 :: "cpu \<Rightarrow> u64 \<Rightarrow> cpu" where
  "set_cr0 c v =
     c\<lparr>cr0 := cr0_write c (cr0 c) v, trace := trace c @ [WRITE_CR0 v]\<rparr>"

section \<open>Finding the running image and the slide\<close>

definition read_u16 :: "mem \<Rightarrow> u64 \<Rightarrow> fault + 16 word" where
  "read_u16 rd a = (case read_bytes rd a 2 of None \<Rightarrow> Inl BadAccess | Some bs \<Rightarrow> Inr (le_word bs))"

definition getIDTAddress :: "cpu \<Rightarrow> u64" where
  "getIDTAddress c = idtr_base c"

text \<open>
  A 64-bit gate descriptor is 16 bytes: \<open>offset_low\<close> (u16) at 0, \<open>offset_middle\<close> (u16)
  at 6, \<open>offset_high\<close> (u32) at 8.
\<close>

definition sizeof_descriptor_idt :: u64 where
  "sizeof_descriptor_idt = 16"

definition calculateInt80Address :: "cpu \<Rightarrow> mem \<Rightarrow> fault + u64" where
  "calculateInt80Address c rd =
     (let idtAddr = getIDTAddress c;
          int80Descr = idtAddr + sizeof_descriptor_idt * 0x80 in
      case read_u32 rd (int80Descr + 8) of
        Inl f \<Rightarrow> Inl f
      | Inr offset_high \<Rightarrow>
          (case read_u16 rd (int80Descr + 6) of
             Inl f \<Rightarrow> Inl f
           | Inr offset_middle \<Rightarrow>
               (case read_u16 rd int80Descr of
                  Inl f \<Rightarrow> Inl f
                | Inr offset_low \<Rightarrow>
                    (let high = push_bit 32 (ucast offset_high :: u64);
                         middle = push_bit 16 (ucast offset_middle :: u32)
                     in Inr (high + ucast middle + ucast offset_low)))))"

text \<open>
  The test inside the backward scan of \<open>findKernelBase\<close>: the magic number at \<open>tmp\<close>,
  followed after the header by a segment command named \<open>__TEXT\<close>.
\<close>

definition is_kernel_header :: "mem \<Rightarrow> u64 \<Rightarrow> fault + bool" where
  "is_kernel_header rd tmp =
     (case read_u32 rd tmp of
        Inl f \<Rightarrow> Inl f
      | Inr magic \<Rightarrow>
          if magic = MH_MAGIC_64 then
            (case strncmp SEG_TEXT rd (tmp + sizeof_mach_header_64 + 8) 16 of
               Inl f \<Rightarrow> Inl f
             | Inr d \<Rightarrow> Inr (d = 0))
          else Inr False)"

function findKernelBase_scan :: "mem \<Rightarrow> u64 \<Rightarrow> fault + u64" where
  "findKernelBase_scan rd tmp =
     (if tmp > 0 then
        (case is_kernel_header rd tmp of
           Inl f \<Rightarrow> Inl f
         | Inr found \<Rightarrow>
             if found then Inr tmp
             else if tmp - 1 > tmp then Inr 0
             else findKernelBase_scan rd (tmp - 1))
      else Inr 0)"
  by pat_completeness auto
termination
  by (relation "measure (\<lambda>(rd, tmp). unat tmp)") (auto simp: unat_minus_one unat_gt_0)

declare findKernelBase_scan.simps [simp del]

definition findKernelBase :: "cpu \<Rightarrow> mem \<Rightarrow> fault + u64" where
  "findKernelBase c rd =
     (case calculateInt80Address c rd of
        Inl f \<Rightarrow> Inl f
      | Inr tmp \<Rightarrow> findKernelBase_scan rd tmp)"

text \<open>
  The body of the loop of \<open>getRunningAddresses\<close>: the virtual address of the command at
  \<open>addr\<close> when it is the 64-bit segment \<open>__TEXT\<close>.
\<close>

definition running_text_segment :: "mem \<Rightarrow> u64 \<Rightarrow> fault + u64 option" where
  "running_text_segment rd addr =
     (case read_u32 rd addr of
        Inl f \<Rightarrow> Inl f
      | Inr cmd \<Rightarrow>
          if cmd = LC_SEGMENT_64 then
            (case strncmp SEG_TEXT rd (addr + 8) 16 of
               Inl f \<Rightarrow> Inl f
             | Inr d \<Rightarrow>
                 if d = 0 then
                   (case read_u64 rd (addr + 24) of
                      Inl f \<Rightarrow> Inl f
                    | Inr vmaddr \<Rightarrow> Inr (Some vmaddr))
                 else Inr None)
          else Inr None)"

function getRunningAddresses_loop ::
  "MachInfo \<Rightarrow> mem \<Rightarrow> u64 \<Rightarrow> u32 \<Rightarrow> u64 \<Rightarrow> nat \<Rightarrow> fault + MachInfo" where
  "getRunningAddresses_loop h rd mh ncmds addr i =
     (if i < unat ncmds then
        (case running_text_segment rd addr of
           Inl f \<Rightarrow> Inl f
         | Inr (Some vmaddr) \<Rightarrow> Inr (h\<lparr>running_text_addr := vmaddr, running_mh := mh\<rparr>)
         | Inr None \<Rightarrow>
             (case read_u32 rd (addr + 4) of
                Inl f \<Rightarrow> Inl f
              | Inr cmdsize \<Rightarrow> getRunningAddresses_loop h rd mh ncmds (addr + ucast cmdsize) (Suc i)))
      else Inr h)"
  by pat_completeness auto
termination
  by (relation "measure (\<lambda>(h, rd, mh, ncmds, addr, i). unat ncmds - i)") auto

declare getRunningAddresses_loop.simps [simp del]

text \<open>
  \<open>getRunningAddresses(slide, size)\<close> on the processor \<open>c\<close> and kernel memory \<open>rd\<close>. The
  result is the return code with the handle after the call.
\<close>

definition getRunningAddresses ::
  "cpu \<Rightarrow> mem \<Rightarrow> MachInfo \<Rightarrow> u64 \<Rightarrow> u64 \<Rightarrow> fault + kern_return_t \<times> MachInfo" where
  "getRunningAddresses c rd h slide size_arg =
     (if kaslr_slide_set h then Inr (KERN_SUCCESS, h)
      else
        (let h1 = (if size_arg > 0 then h\<lparr>memory_size := size_arg\<rparr> else h) in
         case (if slide \<noteq> 0 then Inr slide else findKernelBase c rd) of
           Inl f \<Rightarrow> Inl f
         | Inr base \<Rightarrow>
             (case (if base \<noteq> 0 then
                      (case read_u32 rd (base + 16) of
                         Inl f \<Rightarrow> Inl f
                       | Inr ncmds \<Rightarrow>
                           getRunningAddresses_loop h1 rd base ncmds (base + sizeof_mach_header_64) 0)
                    else Inr h1) of
                Inl f \<Rightarrow> Inl f
              | Inr h2 \<Rightarrow>
                  if running_text_addr h2 \<noteq> 0 \<and> running_mh h2 \<noteq> 0 then
                    Inr (KERN_SUCCESS,
                         h2\<lparr>kaslr_slide :=
                              (if slide = 0 then running_text_addr h2 - disk_text_addr h2 else slide),
                            kaslr_slide_set := True\<rparr>)
                  else Inr (KERN_FAILURE, h2))))"

section \<open>Write protection\<close>

text \<open>
  \<open>setWPBit\<close> reads CR0, sets or clears the WP bit, writes it back and reads the register
  again to check. The check is
  \<open>((get_cr0() & CR0_WP) != 0 && enable) || ((get_cr0() & CR0_WP) == 0 && !enable)\<close>:
  the second read happens only when the first disjunct is false.
\<close>

definition setWPBit :: "cpu \<Rightarrow> bool \<Rightarrow> kern_return_t \<times> cpu" where
  "setWPBit c enable =
     (let (v, c1) = get_cr0 c;
          v' = (if enable then v OR CR0_WP else v AND NOT CR0_WP);
          c2 = set_cr0 c1 v';
          (r1, c3) = get_cr0 c2
      in if r1 AND CR0_WP \<noteq> 0 \<and> enable then (KERN_SUCCESS, c3)
         else
           (let (r2, c4) = get_cr0 c3
            in if r2 AND CR0_WP = 0 \<and> \<not> enable then (KERN_SUCCESS, c4)
               else (KERN_FAILURE, c4)))"

definition setKernelWriting :: "cpu \<Rightarrow> bool \<Rightarrow> kern_return_t \<times> cpu" where
  "setKernelWriting c enable =
     (let c1 = (if enable then cli c else c);
          (r, c2) = setWPBit c1 (\<not> enable);
          (enable', res) = (if r \<noteq> KERN_SUCCESS then (False, KERN_FAILURE) else (enable, KERN_SUCCESS));
          c3 = (if \<not> enable' then sti c2 else c2)
      in (res, c3))"

section \<open>Reading the link-edit segment\<close>

text \<open>
  The kernel services behind \<open>readFileData\<close> and \<open>readLinkedit\<close>, as parameters:
  whether \<open>uio_create\<close> returns a descriptor, the error code of \<open>uio_addiov\<close>, what
  \<open>VNOP_READ\<close> does for a vnode, offset and size (its error code and the bytes it
  transfers, at most the size asked for), and the allocator \<open>Buffer::create\<close> (a block
  of the size asked for, or null).
\<close>

type_synonym vnode_t = nat

record kernel_io =
  uio_create_ok :: bool
  uio_addiov_error :: int
  VNOP_READ :: "vnode_t \<Rightarrow> u64 \<Rightarrow> nat \<Rightarrow> int \<times> u8 list"
  Buffer_create :: "nat \<Rightarrow> u8 list option"

definition EINVAL :: int where
  "EINVAL = 22"

text \<open>
  The result is the error code and the contents of \<open>buffer\<close> after the call. The local
  \<open>error\<close> starts as 0 and is what the function returns when \<open>uio_create\<close> gives null.
\<close>

definition readFileData :: "kernel_io \<Rightarrow> u8 list \<Rightarrow> u64 \<Rightarrow> nat \<Rightarrow> vnode_t \<Rightarrow> int \<times> u8 list" where
  "readFileData k buffer off sz vnode =
     (let error = 0 in
      if \<not> uio_create_ok k then (error, buffer)
      else
        (let error = uio_addiov_error k in
         if error \<noteq> 0 then (error, buffer)
         else
           (let (error, got) = VNOP_READ k vnode off sz;
                transferred = take sz got;
                buffer' = transferred @ drop (length transferred) buffer;
                uio_resid = sz - length transferred
            in if error \<noteq> 0 then (error, buffer')
               else if uio_resid \<noteq> 0 then (EINVAL, buffer')
               else (error, buffer'))))"

text \<open>
  \<open>readLinkedit\<close>: allocate \<open>linkedit_size\<close> bytes, then either read them from the file
  at \<open>fat_offset + linkedit_fileoff\<close> or copy them out of the decompressed file.
\<close>

definition readLinkedit :: "kernel_io \<Rightarrow> MachInfo \<Rightarrow> vnode_t \<Rightarrow> fault + kern_return_t \<times> MachInfo" where
  "readLinkedit k h vnode =
     (case Buffer_create k (unat (linkedit_size h)) of
        None \<Rightarrow> Inr (KERN_FAILURE, h\<lparr>linkedit_buf := None\<rparr>)
      | Some fresh \<Rightarrow>
          (case file_buf h of
             None \<Rightarrow>
               (let (error, buf) =
                      readFileData k fresh (fat_offset h + linkedit_fileoff h)
                        (unat (linkedit_size h)) vnode
                in if error \<noteq> 0 then Inr (KERN_FAILURE, h\<lparr>linkedit_buf := Some buf\<rparr>)
                   else Inr (KERN_SUCCESS, h\<lparr>linkedit_buf := Some buf\<rparr>))
           | Some whole \<Rightarrow>
               (case read_bytes (buf_mem whole) (linkedit_fileoff h) (unat (linkedit_size h)) of
                  None \<Rightarrow> Inl BadAccess
                | Some bs \<Rightarrow>
                    Inr (KERN_SUCCESS, h\<lparr>linkedit_buf := Some (bs @ drop (length bs) fresh)\<rparr>))))"

section \<open>The identity of the running kernel\<close>

text \<open>
  \<open>uuid_command\<close>: \<open>cmd\<close> at 0, \<open>cmdsize\<close> at 4, the 16 bytes of \<open>uuid\<close> at 8.
\<close>

definition LC_UUID :: u32 where
  "LC_UUID = 0x1B"

text \<open>
  The loop of \<open>getUUID\<close>: the address of the \<open>uuid\<close> field of the first \<open>LC_UUID\<close>
  command, \<open>None\<close> for \<open>nullptr\<close> when the \<open>ncmds\<close> commands hold none.
\<close>

function getUUID_loop :: "mem \<Rightarrow> u32 \<Rightarrow> u64 \<Rightarrow> nat \<Rightarrow> fault + u64 option" where
  "getUUID_loop rd ncmds addr i =
     (if i < unat ncmds then
        (case read_u32 rd addr of
           Inl f \<Rightarrow> Inl f
         | Inr cmd \<Rightarrow>
             if cmd = LC_UUID then Inr (Some (addr + 8))
             else
               (case read_u32 rd (addr + 4) of
                  Inl f \<Rightarrow> Inl f
                | Inr cmdsize \<Rightarrow> getUUID_loop rd ncmds (addr + ucast cmdsize) (Suc i)))
      else Inr None)"
  by pat_completeness auto
termination
  by (relation "measure (\<lambda>(rd, ncmds, addr, i). unat ncmds - i)") auto

declare getUUID_loop.simps [simp del]

text \<open>\<open>header\<close> is a pointer into the memory \<open>rd\<close>; \<open>None\<close> is the null pointer.\<close>

definition getUUID :: "mem \<Rightarrow> u64 option \<Rightarrow> fault + u64 option" where
  "getUUID rd header =
     (case header of
        None \<Rightarrow> Inr None
      | Some mh \<Rightarrow>
          (case read_u32 rd (mh + 16) of
             Inl f \<Rightarrow> Inl f
           | Inr ncmds \<Rightarrow> getUUID_loop rd ncmds (mh + sizeof_mach_header_64) 0))"

text \<open>
  \<open>isCurrentKernel\<close> compares the UUID in the header buffer read from disk with the UUID
  of the image found in kernel memory, as two 64-bit words each; the second words are
  read only when the first are equal.
\<close>

definition isCurrentKernel :: "cpu \<Rightarrow> mem \<Rightarrow> u8 list \<Rightarrow> fault + bool" where
  "isCurrentKernel c rd kernelHeader =
     (case findKernelBase c rd of
        Inl f \<Rightarrow> Inl f
      | Inr kernelBase \<Rightarrow>
          (case getUUID (buf_mem kernelHeader) (Some 0) of
             Inl f \<Rightarrow> Inl f
           | Inr uuid1 \<Rightarrow>
               (case getUUID rd (if kernelBase = 0 then None else Some kernelBase) of
                  Inl f \<Rightarrow> Inl f
                | Inr uuid2 \<Rightarrow>
                    (case uuid1 of
                       None \<Rightarrow> Inr False
                     | Some p1 \<Rightarrow>
                         (case uuid2 of
                            None \<Rightarrow> Inr False
                          | Some p2 \<Rightarrow>
                              (case read_u64 (buf_mem kernelHeader) p1 of
                                 Inl f \<Rightarrow> Inl f
                               | Inr a0 \<Rightarrow>
                                   (case read_u64 rd p2 of
                                      Inl f \<Rightarrow> Inl f
                                    | Inr b0 \<Rightarrow>
                                        if a0 \<noteq> b0 then Inr False
                                        else
                                          (case read_u64 (buf_mem kernelHeader) (p1 + 8) of
                                             Inl f \<Rightarrow> Inl f
                                           | Inr a1 \<Rightarrow>
                                               (case read_u64 rd (p2 + 8) of
                                                  Inl f \<Rightarrow> Inl f
                                                | Inr b1 \<Rightarrow> Inr (a1 = b1))))))))))"

section \<open>Locating the image on disk\<close>

text \<open>
  The file-system resources \<open>init\<close> acquires: \<open>iocounts\<close> lists the vnodes that hold a
  reference from \<open>vnode_lookup\<close> not yet dropped by \<open>vnode_put\<close>, \<open>contexts\<close> counts the
  contexts from \<open>vfs_context_create\<close> not yet released.
\<close>

record vfs_state =
  iocounts :: "vnode_t list"
  contexts :: nat

definition vfs_context_create :: "vfs_state \<Rightarrow> vfs_state" where
  "vfs_context_create s = s\<lparr>contexts := Suc (contexts s)\<rparr>"

definition vfs_context_rele :: "vfs_state \<Rightarrow> vfs_state" where
  "vfs_context_rele s = s\<lparr>contexts := contexts s - 1\<rparr>"

definition vnode_put :: "vnode_t \<Rightarrow> vfs_state \<Rightarrow> vfs_state" where
  "vnode_put v s = s\<lparr>iocounts := remove1 v (iocounts s)\<rparr>"

text \<open>
  What \<open>init\<close> runs in: the processor and the kernel memory that \<open>isCurrentKernel\<close>
  inspects, the kernel services of \<open>readLinkedit\<close>, and, as parameters, the calls whose
  results steer the loop and which neither take nor drop a reference themselves: the
  credential check, the allocation of the header buffer, \<open>vnode_lookup\<close> (\<open>None\<close> is an
  error; on success the vnode holds a reference) and \<open>readMachHeader\<close> (its return code,
  the handle after it and the header buffer it filled).
\<close>

record init_env =
  has_credential :: bool
  header_alloc_ok :: bool
  vnode_lookup :: "string \<Rightarrow> vnode_t option"
  readMachHeader :: "MachInfo \<Rightarrow> vnode_t \<Rightarrow> kern_return_t \<times> MachInfo \<times> u8 list"
  processor :: cpu
  kernel_memory :: mem
  io :: kernel_io

text \<open>
  The loop over the candidate paths. It stops at the first path that opens, parses and
  (for the kernel) has the running kernel's UUID, keeping that vnode and its context;
  \<open>None\<close> is \<open>found == false\<close>. The test is \<open>isKernel && !isCurrentKernel(machHeader)\<close>:
  the identity check runs only for the kernel.
\<close>

fun init_loop ::
  "init_env \<Rightarrow> MachInfo \<Rightarrow> vfs_state \<Rightarrow> string list \<Rightarrow>
     fault + (vnode_t \<times> u8 list) option \<times> MachInfo \<times> vfs_state" where
  "init_loop e h s [] = Inr (None, h, s)"
| "init_loop e h s (path # paths) =
     (let s1 = vfs_context_create s in
      case vnode_lookup e path of
        None \<Rightarrow> init_loop e h (vfs_context_rele s1) paths
      | Some vnode \<Rightarrow>
          (let s2 = s1\<lparr>iocounts := vnode # iocounts s1\<rparr>;
               (readError, h', machHeader) = readMachHeader e h vnode
           in if readError = KERN_SUCCESS then
                (case (if isKernel h'
                       then (case isCurrentKernel (processor e) (kernel_memory e) machHeader of
                               Inl f \<Rightarrow> Inl f
                             | Inr current \<Rightarrow> Inr (\<not> current))
                       else Inr False) of
                   Inl f \<Rightarrow> Inl f
                 | Inr other \<Rightarrow>
                     if other then init_loop e h' (vfs_context_rele (vnode_put vnode s2)) paths
                     else Inr (Some (vnode, machHeader), h', s2))
              else init_loop e h' (vfs_context_rele s2) paths))"

definition init :: "init_env \<Rightarrow> MachInfo \<Rightarrow> vfs_state \<Rightarrow> string list \<Rightarrow> fault + kern_return_t \<times> MachInfo \<times> vfs_state" where
  "init e h s paths =
     (if \<not> has_credential e then Inr (KERN_FAILURE, h, s)
      else if \<not> header_alloc_ok e then Inr (KERN_FAILURE, h, s)
      else
        (case init_loop e h s paths of
           Inl f \<Rightarrow> Inl f
         | Inr (None, h1, s1) \<Rightarrow> Inr (KERN_FAILURE, h1, s1)
         | Inr (Some (vnode, machHeader), h1, s1) \<Rightarrow>
             (case processMachHeader h1 machHeader of
                Inl f \<Rightarrow> Inl f
              | Inr h2 \<Rightarrow>
                  (case (if linkedit_fileoff h2 \<noteq> 0 \<and> symboltable_fileoff h2 \<noteq> 0
                         then readLinkedit (io e) h2 vnode
                         else Inr (KERN_FAILURE, h2)) of
                     Inl f \<Rightarrow> Inl f
                   | Inr (error, h3) \<Rightarrow>
                       Inr (error, h3\<lparr>file_buf := None\<rparr>, vnode_put vnode (vfs_context_rele s1))))))"

section \<open>Vocabulary for the statements\<close>

text \<open>
  What the symbol table of a handle says, read off the link-edit buffer \<open>buf\<close> the way
  the Mach-O format lays it out: the tables start at their file offsets less the file
  offset of the segment, record \<open>j\<close> is the \<open>j\<close>-th \<open>nlist_64\<close>, its name is the
  NUL-terminated string at \<open>n_strx\<close> in the string table and its static value is
  \<open>n_value\<close>. \<open>mem_holds rd a bs\<close> says that memory holds the bytes \<open>bs\<close> from address
  \<open>a\<close> on.
\<close>

fun mem_holds :: "mem \<Rightarrow> u64 \<Rightarrow> u8 list \<Rightarrow> bool" where
  "mem_holds rd a [] = True"
| "mem_holds rd a (b # bs) = (rd a = Some b \<and> mem_holds rd (a + 1) bs)"

definition symtab_off :: "MachInfo \<Rightarrow> u64" where
  "symtab_off h = symboltable_fileoff h - linkedit_fileoff h"

definition strtab_off :: "MachInfo \<Rightarrow> u64" where
  "strtab_off h = stringtable_fileoff h - linkedit_fileoff h"

definition symbol_named :: "MachInfo \<Rightarrow> u8 list \<Rightarrow> nat \<Rightarrow> u8 list \<Rightarrow> bool" where
  "symbol_named h buf j nm =
     (case read_u32 (buf_mem buf) (symtab_off h + of_nat j * 16) of
        Inl f \<Rightarrow> False
      | Inr n_strx \<Rightarrow> mem_holds (buf_mem buf) (strtab_off h + ucast n_strx) (nm @ [0]))"

definition symbol_value :: "MachInfo \<Rightarrow> u8 list \<Rightarrow> nat \<Rightarrow> fault + u64" where
  "symbol_value h buf j = read_u64 (buf_mem buf) (symtab_off h + of_nat j * 16 + 8)"

text \<open>Record \<open>j\<close> carries the name \<open>nm\<close>, and \<open>nm\<close> is not the requested name.\<close>

definition other_symbol :: "MachInfo \<Rightarrow> u8 list \<Rightarrow> u8 list \<Rightarrow> nat \<Rightarrow> u8 list \<Rightarrow> bool" where
  "other_symbol h buf symbol j nm = (0 \<notin> set nm \<and> nm \<noteq> cstr symbol \<and> symbol_named h buf j nm)"

text \<open>
  The preconditions of a lookup: a link-edit buffer is loaded, a symbol table is recorded,
  the slide is known, and neither table lies before the start of the segment.
\<close>

definition resolvable :: "MachInfo \<Rightarrow> u8 list \<Rightarrow> bool" where
  "resolvable h buf =
     (linkedit_buf h = Some buf \<and> symboltable_fileoff h \<noteq> 0 \<and> kaslr_slide_set h \<and>
      linkedit_fileoff h \<le> symboltable_fileoff h \<and>
      linkedit_fileoff h \<le> stringtable_fileoff h)"

text \<open>
  What the load commands of an image in memory say, in the words of the specification
  and independently of the code's loop: of the \<open>n\<close> load commands that start at
  \<open>addr\<close>, each followed by the next at the distance its \<open>cmdsize\<close> declares,
  \<open>first_text_segment\<close> is the virtual address of the first one that is a 64-bit segment
  command whose name field holds \<open>__TEXT\<close> and the terminating NUL. It is \<open>None\<close> when
  there is none or the commands cannot be read.
\<close>

fun first_text_segment :: "mem \<Rightarrow> u64 \<Rightarrow> nat \<Rightarrow> u64 option" where
  "first_text_segment rd addr 0 = None"
| "first_text_segment rd addr (Suc n) =
     (if read_u32 rd addr = Inr LC_SEGMENT_64 \<and> mem_holds rd (addr + 8) (SEG_TEXT @ [0]) then
        (case read_u64 rd (addr + 24) of Inl f \<Rightarrow> None | Inr vmaddr \<Rightarrow> Some vmaddr)
      else
        (case read_u32 rd (addr + 4) of
           Inl f \<Rightarrow> None
         | Inr cmdsize \<Rightarrow> first_text_segment rd (addr + ucast cmdsize) n))"

section \<open>Concrete inputs\<close>

text \<open>The names \<open>"foo"\<close>, \<open>"foobar"\<close> and \<open>"bar"\<close>.\<close>

definition foo_name :: "u8 list" where
  "foo_name = [0x66, 0x6F, 0x6F]"

definition foobar_name :: "u8 list" where
  "foobar_name = [0x66, 0x6F, 0x6F, 0x62, 0x61, 0x72]"

definition bar_name :: "u8 list" where
  "bar_name = [0x62, 0x61, 0x72]"

text \<open>
  A link-edit segment with two symbol records and their string table:
  \<open>foobar\<close> with static value \<open>0x2020\<close>, then \<open>foo\<close> with static value \<open>0x1010\<close>.
\<close>

definition foo_linkedit :: "u8 list" where
  "foo_linkedit =
     [1, 0, 0, 0,  0x0F, 1, 0, 0,  0x20, 0x20, 0, 0, 0, 0, 0, 0,
      8, 0, 0, 0,  0x0F, 1, 0, 0,  0x10, 0x10, 0, 0, 0, 0, 0, 0,
      0,  0x66, 0x6F, 0x6F, 0x62, 0x61, 0x72, 0,  0x66, 0x6F, 0x6F, 0]"

text \<open>
  A handle on it: the text segment is at \<open>0x1000\<close> on disk and at \<open>0x5000\<close> in memory,
  the segment starts at file offset \<open>0x2000\<close>, its string table 32 bytes later.
\<close>

definition foo_handle :: MachInfo where
  "foo_handle = \<lparr> isKernel = True, fat_offset = 0,
     disk_text_addr = 0x1000, running_text_addr = 0x5000,
     kaslr_slide = 0x5000 - 0x1000, kaslr_slide_set = True,
     linkedit_fileoff = 0x2000, linkedit_size = 44,
     symboltable_fileoff = 0x2000, symboltable_nr_symbols = 2, stringtable_fileoff = 0x2020,
     linkedit_buf = Some foo_linkedit, file_buf = None,
     running_mh = 0x5000, memory_size = 0x1000 \<rparr>"

text \<open>
  An image that runs where it was linked (slide 0) with a single symbol \<open>foo\<close> whose
  static value is 0.
\<close>

definition unslid_linkedit :: "u8 list" where
  "unslid_linkedit =
     [1, 0, 0, 0,  0x0F, 1, 0, 0,  0, 0, 0, 0, 0, 0, 0, 0,
      0,  0x66, 0x6F, 0x6F, 0]"

definition unslid_handle :: MachInfo where
  "unslid_handle = \<lparr> isKernel = True, fat_offset = 0,
     disk_text_addr = 0x1000, running_text_addr = 0x1000,
     kaslr_slide = 0, kaslr_slide_set = True,
     linkedit_fileoff = 0x2000, linkedit_size = 21,
     symboltable_fileoff = 0x2000, symboltable_nr_symbols = 1, stringtable_fileoff = 0x2010,
     linkedit_buf = Some unslid_linkedit, file_buf = None,
     running_mh = 0x1000, memory_size = 0x1000 \<rparr>"

text \<open>Bytes placed in kernel memory from address \<open>base\<close> on.\<close>

definition mem_at :: "u64 \<Rightarrow> u8 list \<Rightarrow> mem" where
  "mem_at base bytes =
     (\<lambda>a. if uint (a - base) < int (length bytes) then Some (bytes ! unat (a - base)) else None)"

text \<open>
  A running image: a 64-bit Mach-O header with one load command, the segment \<open>__TEXT\<close>
  at virtual address \<open>0x5000\<close>.
\<close>

definition running_image :: "u8 list" where
  "running_image =
     [0xCF, 0xFA, 0xED, 0xFE,  7, 0, 0, 1,  3, 0, 0, 0,  2, 0, 0, 0,
      1, 0, 0, 0,  72, 0, 0, 0,  0, 0, 0, 0,  0, 0, 0, 0,
      0x19, 0, 0, 0,  72, 0, 0, 0,
      0x5F, 0x5F, 0x54, 0x45, 0x58, 0x54, 0, 0,  0, 0, 0, 0, 0, 0, 0, 0,
      0, 0x50, 0, 0, 0, 0, 0, 0,  0, 0x10, 0, 0, 0, 0, 0, 0,
      0, 0, 0, 0, 0, 0, 0, 0,  0, 0x10, 0, 0, 0, 0, 0, 0,
      7, 0, 0, 0,  5, 0, 0, 0,  0, 0, 0, 0,  0, 0, 0, 0]"

text \<open>The gate descriptor of interrupt \<open>0x80\<close>, whose handler is at \<open>0x5004\<close>.\<close>

definition int80_descriptor :: "u8 list" where
  "int80_descriptor = [0x04, 0x50, 8, 0,  0, 0x8E, 0, 0,  0, 0, 0, 0,  0, 0, 0, 0]"

text \<open>
  Kernel memory with that image loaded at \<open>0x5000\<close> and the descriptor table at
  \<open>0x9000\<close>, and a processor whose IDTR points there.
\<close>

definition boot_mem :: mem where
  "boot_mem =
     (\<lambda>a. case mem_at 0x5000 running_image a of
             Some b \<Rightarrow> Some b
           | None \<Rightarrow> mem_at 0x9800 int80_descriptor a)"

definition boot_cpu :: cpu where
  "boot_cpu = \<lparr> idtr_base = 0x9000, cr0 = 0x80010033, cr0_write = (\<lambda>old v. v),
                 interrupts = True, trace = [] \<rparr>"

text \<open>
  The same memory with a stray segment command named \<open>__TEXT\<close>, of virtual address
  \<open>0x7777\<close>, lying at \<open>0x7000\<close> outside the image.
\<close>

definition stray_command :: "u8 list" where
  "stray_command =
     [0x19, 0, 0, 0,  72, 0, 0, 0,
      0x5F, 0x5F, 0x54, 0x45, 0x58, 0x54, 0, 0,  0, 0, 0, 0, 0, 0, 0, 0,
      0x77, 0x77, 0, 0, 0, 0, 0, 0,  0, 0x10, 0, 0, 0, 0, 0, 0]"

definition stray_mem :: mem where
  "stray_mem =
     (\<lambda>a. case boot_mem a of
             Some b \<Rightarrow> Some b
           | None \<Rightarrow> mem_at 0x7000 stray_command a)"

text \<open>Memory in which nothing is mapped: every read faults.\<close>

definition no_mem :: mem where
  "no_mem = (\<lambda>a. None)"

text \<open>The handle \<open>foo_handle\<close> before its slide is computed, and after.\<close>

definition parsed_handle :: MachInfo where
  "parsed_handle = foo_handle\<lparr>running_text_addr := 0, running_mh := 0,
                              kaslr_slide := 0, kaslr_slide_set := False\<rparr>"

definition slid_handle :: "u64 \<Rightarrow> MachInfo" where
  "slid_handle s = parsed_handle\<lparr>running_text_addr := 0x5000, running_mh := 0x5000,
                                 kaslr_slide := s, kaslr_slide_set := True\<rparr>"

text \<open>A processor that keeps the WP bit of CR0 whatever is written to the register.\<close>

definition pinned_cpu :: cpu where
  "pinned_cpu = boot_cpu\<lparr>cr0_write := (\<lambda>old v. (v AND NOT CR0_WP) OR (old AND CR0_WP))\<rparr>"

text \<open>
  Kernel services that work: the file holds \<open>foo_linkedit\<close> at offset \<open>0x2000\<close>, and a
  fresh block is filled with \<open>0xAA\<close>. \<open>no_uio\<close> is the same kernel when \<open>uio_create\<close>
  returns null, \<open>short_io\<close> the same kernel when the file ends 4 bytes early.
\<close>

definition good_io :: kernel_io where
  "good_io = \<lparr> uio_create_ok = True, uio_addiov_error = 0,
       VNOP_READ = (\<lambda>vnode off sz. if off = 0x2000 then (0, take sz foo_linkedit) else (0, [])),
       Buffer_create = (\<lambda>n. Some (replicate n 0xAA)) \<rparr>"

definition no_uio :: kernel_io where
  "no_uio = good_io\<lparr>uio_create_ok := False\<rparr>"

definition short_io :: kernel_io where
  "short_io = good_io\<lparr>VNOP_READ :=
     (\<lambda>vnode off sz. if off = 0x2000 then (0, take sz (take 40 foo_linkedit)) else (0, []))\<rparr>"

text \<open>
  The handle after \<open>processMachHeader\<close> and before \<open>readLinkedit\<close>, and the handle a
  freshly constructed \<open>MachInfo\<close> for the kernel is.
\<close>

definition unread_handle :: MachInfo where
  "unread_handle = parsed_handle\<lparr>linkedit_buf := None\<rparr>"

definition blank_handle :: MachInfo where
  "blank_handle = \<lparr> isKernel = True, fat_offset = 0,
     disk_text_addr = 0, running_text_addr = 0,
     kaslr_slide = 0, kaslr_slide_set = False,
     linkedit_fileoff = 0, linkedit_size = 0,
     symboltable_fileoff = 0, symboltable_nr_symbols = 0, stringtable_fileoff = 0,
     linkedit_buf = None, file_buf = None,
     running_mh = 0, memory_size = 0x1000 \<rparr>"

text \<open>
  The header buffer of the file behind \<open>foo_handle\<close>, 4096 bytes: four load commands,
  the segments \<open>__TEXT\<close> (at \<open>0x1000\<close>) and \<open>__LINKEDIT\<close> (file offset \<open>0x2000\<close>, 44
  bytes), the symbol table (2 symbols at \<open>0x2000\<close>, strings at \<open>0x2020\<close>) and a UUID.
  \<open>other_header\<close> is the same header with another UUID.
\<close>

definition disk_commands :: "u8 list" where
  "disk_commands =
     [0xCF, 0xFA, 0xED, 0xFE,  7, 0, 0, 1,  3, 0, 0, 0,  2, 0, 0, 0,
      4, 0, 0, 0,  0xC0, 0, 0, 0,  0, 0, 0, 0,  0, 0, 0, 0,
      0x19, 0, 0, 0,  72, 0, 0, 0,
      0x5F, 0x5F, 0x54, 0x45, 0x58, 0x54, 0, 0,  0, 0, 0, 0, 0, 0, 0, 0,
      0, 0x10, 0, 0, 0, 0, 0, 0,  0, 0x10, 0, 0, 0, 0, 0, 0,
      0, 0, 0, 0, 0, 0, 0, 0,  0, 0x10, 0, 0, 0, 0, 0, 0,
      7, 0, 0, 0,  5, 0, 0, 0,  0, 0, 0, 0,  0, 0, 0, 0,
      0x19, 0, 0, 0,  72, 0, 0, 0,
      0x5F, 0x5F, 0x4C, 0x49, 0x4E, 0x4B, 0x45, 0x44,  0x49, 0x54, 0, 0, 0, 0, 0, 0,
      0, 0x20, 0, 0, 0, 0, 0, 0,  0, 0x10, 0, 0, 0, 0, 0, 0,
      0, 0x20, 0, 0, 0, 0, 0, 0,  44, 0, 0, 0, 0, 0, 0, 0,
      7, 0, 0, 0,  1, 0, 0, 0,  0, 0, 0, 0,  0, 0, 0, 0,
      2, 0, 0, 0,  24, 0, 0, 0,  0, 0x20, 0, 0,  2, 0, 0, 0,  0x20, 0x20, 0, 0,  12, 0, 0, 0,
      0x1B, 0, 0, 0,  24, 0, 0, 0]"

definition disk_header :: "u8 list" where
  "disk_header =
     disk_commands
     @ [0xA1, 0xB2, 0xC3, 0xD4, 0xE5, 0xF6, 0x07, 0x18,  0x29, 0x3A, 0x4B, 0x5C, 0x6D, 0x7E, 0x8F, 0x90]
     @ replicate 3872 0"

definition other_header :: "u8 list" where
  "other_header =
     disk_commands
     @ [0xA1, 0xB2, 0xC3, 0xD4, 0xE5, 0xF6, 0x07, 0x18,  0x29, 0x3A, 0x4B, 0x5C, 0x6D, 0x7E, 0x8F, 0x91]
     @ replicate 3872 0"

text \<open>
  The running kernel of that file: its header in memory at \<open>0x5000\<close>, with the segment
  \<open>__TEXT\<close> at \<open>0x5000\<close> and the UUID of \<open>disk_header\<close>, and the descriptor table at
  \<open>0x9000\<close>.
\<close>

definition live_kernel :: "u8 list" where
  "live_kernel =
     [0xCF, 0xFA, 0xED, 0xFE,  7, 0, 0, 1,  3, 0, 0, 0,  2, 0, 0, 0,
      2, 0, 0, 0,  96, 0, 0, 0,  0, 0, 0, 0,  0, 0, 0, 0,
      0x19, 0, 0, 0,  72, 0, 0, 0,
      0x5F, 0x5F, 0x54, 0x45, 0x58, 0x54, 0, 0,  0, 0, 0, 0, 0, 0, 0, 0,
      0, 0x50, 0, 0, 0, 0, 0, 0,  0, 0x10, 0, 0, 0, 0, 0, 0,
      0, 0, 0, 0, 0, 0, 0, 0,  0, 0x10, 0, 0, 0, 0, 0, 0,
      7, 0, 0, 0,  5, 0, 0, 0,  0, 0, 0, 0,  0, 0, 0, 0,
      0x1B, 0, 0, 0,  24, 0, 0, 0,
      0xA1, 0xB2, 0xC3, 0xD4, 0xE5, 0xF6, 0x07, 0x18,  0x29, 0x3A, 0x4B, 0x5C, 0x6D, 0x7E, 0x8F, 0x90]"

definition live_mem :: mem where
  "live_mem =
     (\<lambda>a. case mem_at 0x5000 live_kernel a of
             Some b \<Rightarrow> Some b
           | None \<Rightarrow> mem_at 0x9800 int80_descriptor a)"

text \<open>
  Two header buffers of 4096 bytes with a bad size field. In the first, the only command
  present declares a size of \<open>0x10000\<close> while the header announces two commands. In the
  second, the symbol-table command declares size 0 while the header announces three.
\<close>

definition oversize_header :: "u8 list" where
  "oversize_header =
     [0xCF, 0xFA, 0xED, 0xFE,  7, 0, 0, 1,  3, 0, 0, 0,  2, 0, 0, 0,
      2, 0, 0, 0,  24, 0, 0, 0,  0, 0, 0, 0,  0, 0, 0, 0,
      2, 0, 0, 0,  0, 0, 1, 0,  0, 0x20, 0, 0,  2, 0, 0, 0,  0x20, 0x20, 0, 0,  12, 0, 0, 0]
     @ replicate 4040 0"

definition zero_size_header :: "u8 list" where
  "zero_size_header =
     [0xCF, 0xFA, 0xED, 0xFE,  7, 0, 0, 1,  3, 0, 0, 0,  2, 0, 0, 0,
      3, 0, 0, 0,  24, 0, 0, 0,  0, 0, 0, 0,  0, 0, 0, 0,
      2, 0, 0, 0,  0, 0, 0, 0,  0, 0x20, 0, 0,  2, 0, 0, 0,  0x20, 0x20, 0, 0,  12, 0, 0, 0]
     @ replicate 4040 0"

text \<open>
  A file system for \<open>init\<close> on that machine. \<open>/bad/path\<close> does not exist.
  \<open>/unparsable\<close> opens as vnode 1, a file of 4096 zero bytes: \<open>readMachHeader\<close> reads
  them, finds no known magic number and fails. \<open>/good/path\<close> opens as vnode 2, the file
  behind \<open>foo_handle\<close>: \<open>readMachHeader\<close> reads \<open>disk_header\<close> and succeeds at offset 0.
  \<open>/old/kernel\<close> opens as vnode 3, the same file built with another UUID.
\<close>

definition disk_io :: kernel_io where
  "disk_io = \<lparr> uio_create_ok = True, uio_addiov_error = 0,
       VNOP_READ = (\<lambda>vnode off sz.
          if vnode = 1 \<and> off = 0 then (0, take sz (replicate 4096 0))
          else if vnode = 2 \<and> off = 0 then (0, take sz disk_header)
          else if vnode = 3 \<and> off = 0 then (0, take sz other_header)
          else if (vnode = 2 \<or> vnode = 3) \<and> off = 0x2000 then (0, take sz foo_linkedit)
          else (0, [])),
       Buffer_create = (\<lambda>n. Some (replicate n 0xAA)) \<rparr>"

definition disk_env :: init_env where
  "disk_env = \<lparr> has_credential = True, header_alloc_ok = True,
       vnode_lookup = (\<lambda>p. if p = ''/unparsable'' then Some 1
                            else if p = ''/good/path'' then Some 2
                            else if p = ''/old/kernel'' then Some 3 else None),
       readMachHeader = (\<lambda>h vnode. if vnode = 2 then (KERN_SUCCESS, h, disk_header)
                                     else if vnode = 3 then (KERN_SUCCESS, h, other_header)
                                     else (KERN_FAILURE, h, replicate 4096 0)),
       processor = boot_cpu,
       kernel_memory = live_mem,
       io = disk_io \<rparr>"

definition no_files :: vfs_state where
  "no_files = \<lparr> iocounts = [], contexts = 0 \<rparr>"

section \<open>Facts about machine words and strings\<close>

lemma sub_underflow: "(x::u64) < y \<Longrightarrow> x - y > x"
  by (simp add: sub_wrap_lt)

lemma sub_no_underflow: "(y::u64) \<le> x \<Longrightarrow> \<not> x - y > x"
  by (simp add: sub_wrap_lt not_less)

lemma byte_diff_0 [simp]: "byte_diff d c = 0 \<longleftrightarrow> d = c"
  unfolding byte_diff_def using word_eq_iff_unsigned by auto

text \<open>
  The comparison over \<open>strlen(s) + 1\<close> bytes is exact: it gives 0 when memory holds the
  bytes of \<open>s\<close> followed by NUL, and a non-zero result when memory holds any other
  terminated string, a longer one that starts with \<open>s\<close> included.
\<close>

lemma strncmp_match:
  "mem_holds rd a (cstr s @ [0]) \<Longrightarrow> strncmp s rd a (Suc (strlen s)) = Inr 0"
proof (induction s arbitrary: a)
  case Nil
  then show ?case by (simp add: cstr_def strlen_def)
next
  case (Cons x xs)
  show ?case
  proof (cases "x = 0")
    case True
    with Cons.prems show ?thesis by (simp add: cstr_def strlen_def)
  next
    case False
    with Cons.prems have "rd a = Some x" and "mem_holds rd (a + 1) (cstr xs @ [0])"
      by (simp_all add: cstr_def)
    with False Cons.IH [of "a + 1"] show ?thesis
      by (simp add: cstr_def strlen_def)
  qed
qed

lemma strncmp_differ:
  "0 \<notin> set nm \<Longrightarrow> nm \<noteq> cstr s \<Longrightarrow> mem_holds rd a (nm @ [0]) \<Longrightarrow>
   \<exists>d. d \<noteq> 0 \<and> strncmp s rd a (Suc (strlen s)) = Inr d"
proof (induction s arbitrary: a nm)
  case Nil
  then obtain y ys where "nm = y # ys" by (cases nm) (auto simp: cstr_def)
  with Nil show ?case by (auto simp: cstr_def strlen_def)
next
  case (Cons x xs)
  show ?case
  proof (cases "x = 0")
    case True
    with Cons.prems obtain y ys where "nm = y # ys" by (cases nm) (auto simp: cstr_def)
    with True Cons.prems show ?thesis by (auto simp: cstr_def strlen_def)
  next
    case False
    show ?thesis
    proof (cases nm)
      case Nil
      with False Cons.prems show ?thesis by (auto simp: cstr_def strlen_def)
    next
      case (Cons y ys)
      show ?thesis
      proof (cases "y = x")
        case True
        with Cons False Cons.prems
        have "0 \<notin> set ys" "ys \<noteq> cstr xs" "mem_holds rd (a + 1) (ys @ [0])"
          by (auto simp: cstr_def)
        from Cons.IH [OF this] True Cons False Cons.prems show ?thesis
          by (auto simp: cstr_def strlen_def)
      next
        case neq: False
        with Cons False Cons.prems show ?thesis
          by (auto simp: cstr_def strlen_def)
      qed
    qed
  qed
qed

text \<open>
  With a bound beyond the end of \<open>s\<close>, a comparison that completes gives 0 exactly when
  memory holds the bytes of \<open>s\<close> followed by NUL.
\<close>

lemma strncmp_zero_iff:
  "strlen s < n \<Longrightarrow> strncmp s rd a n = Inr d \<Longrightarrow>
   (d = 0 \<longleftrightarrow> mem_holds rd a (cstr s @ [0]))"
proof (induction s arbitrary: a n)
  case Nil
  then obtain m where n: "n = Suc m" by (cases n) simp_all
  with Nil show ?case
    by (auto simp: cstr_def split: option.splits if_splits)
next
  case (Cons x xs)
  then obtain m where n: "n = Suc m" by (cases n) simp_all
  show ?case
  proof (cases "x = 0")
    case True
    with Cons.prems n show ?thesis
      by (auto simp: cstr_def split: option.splits if_splits)
  next
    case False
    with Cons.prems n have m: "strlen xs < m"
      by (simp add: strlen_def cstr_def)
    from Cons.prems n obtain c where c: "rd a = Some c"
      by (auto split: option.splits)
    show ?thesis
    proof (cases "x = c")
      case True
      with Cons.prems n c False have "strncmp xs rd (a + 1) m = Inr d"
        by simp
      from Cons.IH [OF m this] True c False show ?thesis
        by (simp add: cstr_def)
    next
      case neq: False
      with Cons.prems n c False show ?thesis
        by (auto simp: cstr_def)
    qed
  qed
qed

lemma seg_text_strlen: "strlen SEG_TEXT < 16"
  by (simp add: strlen_def cstr_def SEG_TEXT_def)

lemma seg_text_cstr: "cstr SEG_TEXT = SEG_TEXT"
  by (simp add: cstr_def SEG_TEXT_def)

section \<open>Facts about symbol resolution\<close>

lemma solveSymbol_scan_frame:
  "snd (solveSymbol_scan h rd symbolOff stringOff symbol i) = h"
proof (induction h rd symbolOff stringOff symbol i rule: solveSymbol_scan.induct)
  case (1 h rd symbolOff stringOff symbol i)
  show ?case
  proof (cases "i < unat (symboltable_nr_symbols h)")
    case False
    then show ?thesis by (subst solveSymbol_scan.simps) simp
  next
    case True
    then show ?thesis
      using "1.IH"
      by (subst solveSymbol_scan.simps) (simp add: Let_def split: sum.splits)
  qed
qed


lemma scan_skip:
  assumes "i < unat (symboltable_nr_symbols h)"
    and "other_symbol h buf symbol i nm"
  shows "solveSymbol_scan h (buf_mem buf) (symtab_off h) (strtab_off h) symbol i =
         solveSymbol_scan h (buf_mem buf) (symtab_off h) (strtab_off h) symbol (Suc i)"
proof -
  from assms(2) obtain s where s: "read_u32 (buf_mem buf) (symtab_off h + of_nat i * 16) = Inr s"
    and m: "mem_holds (buf_mem buf) (strtab_off h + ucast s) (nm @ [0])"
    and nm: "0 \<notin> set nm" "nm \<noteq> cstr symbol"
    by (auto simp: other_symbol_def symbol_named_def split: sum.splits)
  from strncmp_differ [OF nm m] obtain d where
    "d \<noteq> 0" "strncmp symbol (buf_mem buf) (strtab_off h + ucast s) (Suc (strlen symbol)) = Inr d"
    by blast
  with s assms(1) show ?thesis
    by (subst solveSymbol_scan.simps) (simp add: sizeof_nlist_64_def)
qed

lemma scan_hit:
  assumes "i < unat (symboltable_nr_symbols h)"
    and "symbol_named h buf i (cstr symbol)"
    and "symbol_value h buf i = Inr v"
  shows "solveSymbol_scan h (buf_mem buf) (symtab_off h) (strtab_off h) symbol i =
         (Inr (v + kaslr_slide h), h)"
proof -
  from assms(2) obtain s where s: "read_u32 (buf_mem buf) (symtab_off h + of_nat i * 16) = Inr s"
    and m: "mem_holds (buf_mem buf) (strtab_off h + ucast s) (cstr symbol @ [0])"
    by (auto simp: symbol_named_def split: sum.splits)
  from strncmp_match [OF m] s assms(1,3) show ?thesis
    by (subst solveSymbol_scan.simps) (simp add: sizeof_nlist_64_def symbol_value_def)
qed

lemma scan_first_match:
  assumes "k < unat (symboltable_nr_symbols h)"
    and "\<forall>j<k. other_symbol h buf symbol j (nm j)"
    and "symbol_named h buf k (cstr symbol)"
    and "symbol_value h buf k = Inr v"
    and "i \<le> k"
  shows "solveSymbol_scan h (buf_mem buf) (symtab_off h) (strtab_off h) symbol i =
         (Inr (v + kaslr_slide h), h)"
  using assms(5)
proof (induction "k - i" arbitrary: i)
  case 0
  then have "i = k" by simp
  with scan_hit [OF assms(1,3,4)] show ?case by simp
next
  case (Suc n)
  then have lt: "i < k" and n: "n = k - Suc i" and le: "Suc i \<le> k" by simp_all
  from lt assms(1) have "i < unat (symboltable_nr_symbols h)" by simp
  moreover from lt assms(2) have "other_symbol h buf symbol i (nm i)" by blast
  ultimately show ?case
    using Suc.hyps(1) [OF n le] by (simp add: scan_skip)
qed

lemma scan_no_match:
  assumes "\<forall>j<unat (symboltable_nr_symbols h). other_symbol h buf symbol j (nm j)"
  shows "solveSymbol_scan h (buf_mem buf) (symtab_off h) (strtab_off h) symbol i = (Inr 0, h)"
proof (induction "unat (symboltable_nr_symbols h) - i" arbitrary: i)
  case 0
  then show ?case by (subst solveSymbol_scan.simps) simp
next
  case (Suc n)
  then have lt: "i < unat (symboltable_nr_symbols h)"
    and n: "n = unat (symboltable_nr_symbols h) - Suc i" by simp_all
  from lt assms have "other_symbol h buf symbol i (nm i)" by blast
  with lt show ?case
    using Suc.hyps(1) [OF n] by (simp add: scan_skip)
qed

lemma solveSymbol_guarded:
  assumes "resolvable h buf"
  shows "solveSymbol h symbol =
         solveSymbol_scan h (buf_mem buf) (symtab_off h) (strtab_off h) symbol 0"
  using assms
  by (simp add: resolvable_def solveSymbol_def Let_def symtab_off_def strtab_off_def sub_no_underflow)

lemma foo_handle_resolvable: "resolvable foo_handle foo_linkedit"
  by code_simp

lemma foo_handle_foobar: "other_symbol foo_handle foo_linkedit foo_name 0 foobar_name"
  by code_simp

lemma foo_handle_foo: "symbol_named foo_handle foo_linkedit 1 (cstr foo_name)"
  by code_simp

lemma foo_handle_foo_value: "symbol_value foo_handle foo_linkedit 1 = Inr 0x1010"
  by code_simp

text \<open>
  Claim C1. On a handle with a loaded link-edit buffer, a recorded symbol table and a known
  slide (and tables that do not lie before the segment), let record \<open>k\<close> be the first
  record whose name is the requested name: every record before it carries some other
  name, which may be a longer name starting with the requested one. Then \<open>solveSymbol\<close>
  returns the static value of record \<open>k\<close> plus the slide. In particular, with the text
  segment at \<open>0x1000\<close> on disk and at \<open>0x5000\<close> in memory and a symbol \<open>foo\<close> of static
  value \<open>0x1010\<close> listed after a symbol \<open>foobar\<close>, resolving \<open>foo\<close> gives \<open>0x5010\<close>.
\<close>

theorem solveSymbol_first_match:
  assumes "resolvable h buf"
    and "k < unat (symboltable_nr_symbols h)"
    and "\<forall>j<k. other_symbol h buf symbol j (nm j)"
    and "symbol_named h buf k (cstr symbol)"
    and "symbol_value h buf k = Inr v"
  shows "fst (solveSymbol h symbol) = Inr (v + kaslr_slide h) \<and>
         fst (solveSymbol foo_handle foo_name) = Inr 0x5010"
proof
  show "fst (solveSymbol h symbol) = Inr (v + kaslr_slide h)"
    using solveSymbol_guarded [OF assms(1)] scan_first_match [OF assms(2-5), of 0]
    by simp
  show "fst (solveSymbol foo_handle foo_name) = Inr 0x5010"
    by code_simp
qed

theorem solveSymbol_first_match_witness:
  "resolvable foo_handle foo_linkedit \<and>
   other_symbol foo_handle foo_linkedit foo_name 0 foobar_name \<and>
   symbol_named foo_handle foo_linkedit 1 (cstr foo_name) \<and>
   symbol_value foo_handle foo_linkedit 1 = Inr 0x1010 \<and>
   kaslr_slide foo_handle = 0x4000 \<and>
   fst (solveSymbol foo_handle foo_name) = Inr (0x1010 + 0x4000)"
proof -
  have k: "1 < unat (symboltable_nr_symbols foo_handle)"
    by (simp add: foo_handle_def)
  have before: "\<forall>j<1. other_symbol foo_handle foo_linkedit foo_name j ((\<lambda>j. foobar_name) j)"
    using foo_handle_foobar by simp
  have slide: "kaslr_slide foo_handle = 0x4000"
    by (simp add: foo_handle_def)
  from solveSymbol_first_match [OF foo_handle_resolvable k before foo_handle_foo foo_handle_foo_value]
  have "fst (solveSymbol foo_handle foo_name) = Inr (0x1010 + kaslr_slide foo_handle)"
    by simp
  with slide foo_handle_resolvable foo_handle_foobar foo_handle_foo foo_handle_foo_value
  show ?thesis by simp
qed

text \<open>
  Claim C6. When the symbol table or the string table lies before the start of the
  link-edit segment, so that the subtraction of the file offsets wraps around,
  \<open>solveSymbol\<close> returns 0. It does so as a normal return whatever the buffer holds, and
  also when the buffer is empty, where any read at all would be a fault: the wrapped
  offset is compared and dropped, never used to address the buffer.
\<close>

theorem solveSymbol_underflow:
  assumes "symboltable_fileoff h < linkedit_fileoff h \<or>
           stringtable_fileoff h < linkedit_fileoff h"
  shows "fst (solveSymbol h symbol) = Inr 0 \<and>
         fst (solveSymbol (h\<lparr>linkedit_buf := Some []\<rparr>) symbol) = Inr 0"
  using assms
  by (auto simp: solveSymbol_def Let_def sub_underflow split: option.splits)

theorem solveSymbol_underflow_witness:
  "symboltable_fileoff (foo_handle\<lparr>linkedit_fileoff := 0x2008\<rparr>) <
     linkedit_fileoff (foo_handle\<lparr>linkedit_fileoff := 0x2008\<rparr>) \<and>
   fst (solveSymbol (foo_handle\<lparr>linkedit_fileoff := 0x2008\<rparr>) foo_name) = Inr 0 \<and>
   fst (solveSymbol (foo_handle\<lparr>linkedit_fileoff := 0x2008, linkedit_buf := Some []\<rparr>) foo_name) = Inr 0"
proof -
  have lt: "symboltable_fileoff (foo_handle\<lparr>linkedit_fileoff := 0x2008\<rparr>) <
     linkedit_fileoff (foo_handle\<lparr>linkedit_fileoff := 0x2008\<rparr>)"
    by (simp add: foo_handle_def)
  with solveSymbol_underflow [of "foo_handle\<lparr>linkedit_fileoff := 0x2008\<rparr>" foo_name]
  show ?thesis by simp
qed

text \<open>
  Claim C10. \<open>solveSymbol\<close> leaves the handle as it found it, every field of it, whether
  it returns an address, the sentinel 0 or runs into a fault.
\<close>

theorem solveSymbol_frame: "snd (solveSymbol h symbol) = h"
  by (simp add: solveSymbol_def Let_def solveSymbol_scan_frame split: option.splits)

lemma unslid_resolvable: "resolvable unslid_handle unslid_linkedit"
  by code_simp

lemma unslid_foo: "symbol_named unslid_handle unslid_linkedit 0 (cstr foo_name)"
  by code_simp

lemma unslid_result: "fst (solveSymbol unslid_handle foo_name) = Inr 0"
  by code_simp

text \<open>
  Claim C2, as stated, fails in its last part: a single matching entry does not make the
  result non-zero. On an image that runs unslid, the only symbol \<open>foo\<close>, of static value
  0, resolves to 0, the very value that reports a failed lookup.
\<close>

theorem solveSymbol_nonzero_counterexample:
  "resolvable unslid_handle unslid_linkedit \<and>
   unat (symboltable_nr_symbols unslid_handle) = 1 \<and>
   symbol_named unslid_handle unslid_linkedit 0 (cstr foo_name) \<and>
   symbol_value unslid_handle unslid_linkedit 0 = Inr 0 \<and>
   fst (solveSymbol unslid_handle foo_name) = Inr 0"
proof -
  have "unat (symboltable_nr_symbols unslid_handle) = 1"
    by (simp add: unslid_handle_def)
  moreover have "symbol_value unslid_handle unslid_linkedit 0 = Inr 0"
    by code_simp
  ultimately show ?thesis
    using unslid_resolvable unslid_foo unslid_result by simp
qed

text \<open>
  Claim C2, amended. \<open>solveSymbol\<close> returns 0 when no link-edit buffer is loaded, when no
  symbol-table offset is recorded or when the slide is not known; it returns 0 when the
  symbol count is 0; and it returns 0 after a scan in which every record carries another
  name. When exactly one record \<open>k\<close> carries the requested name it returns the static
  value of that record plus the slide, in 64-bit arithmetic; that sum may be 0.
\<close>

theorem solveSymbol_sentinel:
  "(linkedit_buf h = None \<or> symboltable_fileoff h = 0 \<or> \<not> kaslr_slide_set h
      \<longrightarrow> fst (solveSymbol h symbol) = Inr 0) \<and>
   (symboltable_nr_symbols h = 0 \<longrightarrow> fst (solveSymbol h symbol) = Inr 0) \<and>
   (resolvable h buf \<and> (\<forall>j<unat (symboltable_nr_symbols h). other_symbol h buf symbol j (nm j))
      \<longrightarrow> fst (solveSymbol h symbol) = Inr 0) \<and>
   (resolvable h buf \<and> k < unat (symboltable_nr_symbols h) \<and>
    (\<forall>j<unat (symboltable_nr_symbols h). j \<noteq> k \<longrightarrow> other_symbol h buf symbol j (nm j)) \<and>
    symbol_named h buf k (cstr symbol) \<and> symbol_value h buf k = Inr v
      \<longrightarrow> fst (solveSymbol h symbol) = Inr (v + kaslr_slide h))"
proof (intro conjI impI)
  assume "linkedit_buf h = None \<or> symboltable_fileoff h = 0 \<or> \<not> kaslr_slide_set h"
  then show "fst (solveSymbol h symbol) = Inr 0"
    by (auto simp: solveSymbol_def split: option.splits)
next
  assume n: "symboltable_nr_symbols h = 0"
  have "fst (solveSymbol_scan h rd a b symbol 0) = Inr 0" for rd a b
    using n by (subst solveSymbol_scan.simps) simp
  then show "fst (solveSymbol h symbol) = Inr 0"
    by (simp add: solveSymbol_def Let_def split: option.splits)
next
  assume a: "resolvable h buf \<and>
    (\<forall>j<unat (symboltable_nr_symbols h). other_symbol h buf symbol j (nm j))"
  then have r: "resolvable h buf"
    and none: "\<forall>j<unat (symboltable_nr_symbols h). other_symbol h buf symbol j (nm j)"
    by blast+
  from scan_no_match [OF none, of 0] solveSymbol_guarded [OF r, of symbol]
  show "fst (solveSymbol h symbol) = Inr 0"
    by simp
next
  assume a: "resolvable h buf \<and> k < unat (symboltable_nr_symbols h) \<and>
    (\<forall>j<unat (symboltable_nr_symbols h). j \<noteq> k \<longrightarrow> other_symbol h buf symbol j (nm j)) \<and>
    symbol_named h buf k (cstr symbol) \<and> symbol_value h buf k = Inr v"
  then have r: "resolvable h buf"
    and k: "k < unat (symboltable_nr_symbols h)"
    and named: "symbol_named h buf k (cstr symbol)"
    and val: "symbol_value h buf k = Inr v"
    by blast+
  from a k have before: "\<forall>j<k. other_symbol h buf symbol j (nm j)"
    by auto
  from scan_first_match [OF k before named val, of 0] solveSymbol_guarded [OF r, of symbol]
  show "fst (solveSymbol h symbol) = Inr (v + kaslr_slide h)"
    by simp
qed

theorem solveSymbol_sentinel_witness:
  "fst (solveSymbol (foo_handle\<lparr>linkedit_buf := None\<rparr>) foo_name) = Inr 0 \<and>
   fst (solveSymbol (foo_handle\<lparr>kaslr_slide_set := False\<rparr>) foo_name) = Inr 0 \<and>
   fst (solveSymbol (foo_handle\<lparr>symboltable_nr_symbols := 0\<rparr>) foo_name) = Inr 0 \<and>
   fst (solveSymbol foo_handle bar_name) = Inr 0 \<and>
   fst (solveSymbol foo_handle foobar_name) = Inr 0x6020"
proof -
  note t = solveSymbol_sentinel
  have a: "fst (solveSymbol (foo_handle\<lparr>linkedit_buf := None\<rparr>) foo_name) = Inr 0"
    using t [of "foo_handle\<lparr>linkedit_buf := None\<rparr>" foo_name] by simp
  have b: "fst (solveSymbol (foo_handle\<lparr>kaslr_slide_set := False\<rparr>) foo_name) = Inr 0"
    using t [of "foo_handle\<lparr>kaslr_slide_set := False\<rparr>" foo_name] by simp
  have c: "fst (solveSymbol (foo_handle\<lparr>symboltable_nr_symbols := 0\<rparr>) foo_name) = Inr 0"
    using t [of "foo_handle\<lparr>symboltable_nr_symbols := 0\<rparr>" foo_name] by simp
  have n: "unat (symboltable_nr_symbols foo_handle) = 2"
    by (simp add: foo_handle_def)
  have o0: "other_symbol foo_handle foo_linkedit bar_name 0 foobar_name"
    by code_simp
  have o1: "other_symbol foo_handle foo_linkedit bar_name 1 foo_name"
    by code_simp
  have "\<forall>j<unat (symboltable_nr_symbols foo_handle).
          other_symbol foo_handle foo_linkedit bar_name j ((\<lambda>j. if j = 0 then foobar_name else foo_name) j)"
    using o0 o1 n by (auto simp: less_Suc_eq numeral_2_eq_2)
  with foo_handle_resolvable
    t [of foo_handle bar_name foo_linkedit "\<lambda>j. if j = 0 then foobar_name else foo_name"]
  have d: "fst (solveSymbol foo_handle bar_name) = Inr 0"
    by blast
  have p1: "other_symbol foo_handle foo_linkedit foobar_name 1 foo_name"
    by code_simp
  have p0: "symbol_named foo_handle foo_linkedit 0 (cstr foobar_name)"
    by code_simp
  have pv: "symbol_value foo_handle foo_linkedit 0 = Inr 0x2020"
    by code_simp
  have others: "\<forall>j<unat (symboltable_nr_symbols foo_handle). j \<noteq> 0 \<longrightarrow>
          other_symbol foo_handle foo_linkedit foobar_name j ((\<lambda>j. foo_name) j)"
    using p1 n by (auto simp: less_Suc_eq numeral_2_eq_2)
  have "0 < unat (symboltable_nr_symbols foo_handle)"
    using n by simp
  with foo_handle_resolvable others p0 pv
    t [of foo_handle foobar_name foo_linkedit "\<lambda>j. foo_name" 0 "0x2020"]
  have "fst (solveSymbol foo_handle foobar_name) = Inr (0x2020 + kaslr_slide foo_handle)"
    by blast
  then have e: "fst (solveSymbol foo_handle foobar_name) = Inr 0x6020"
    by (simp add: foo_handle_def)
  from a b c d e show ?thesis by simp
qed

section \<open>Facts about the slide\<close>

lemma getRunningAddresses_loop_keeps:
  "getRunningAddresses_loop h rd mh ncmds addr i = Inr h' \<Longrightarrow>
   disk_text_addr h' = disk_text_addr h \<and> kaslr_slide_set h' = kaslr_slide_set h"
proof (induction h rd mh ncmds addr i rule: getRunningAddresses_loop.induct)
  case (1 h rd mh ncmds addr i)
  show ?case
  proof (cases "i < unat ncmds")
    case False
    with "1.prems" show ?thesis
      by (subst (asm) getRunningAddresses_loop.simps) simp
  next
    case True
    with "1.prems" "1.IH" show ?thesis
      by (subst (asm) getRunningAddresses_loop.simps)
         (auto split: sum.splits option.splits)
  qed
qed

text \<open>
  The test of the loop agrees with the format: it finds a text segment exactly at a
  64-bit segment command whose name field holds \<open>__TEXT\<close> and NUL.
\<close>

lemma running_text_segment_found:
  "running_text_segment rd addr = Inr (Some v) \<Longrightarrow>
   read_u32 rd addr = Inr LC_SEGMENT_64 \<and> mem_holds rd (addr + 8) (SEG_TEXT @ [0]) \<and>
   read_u64 rd (addr + 24) = Inr v"
  using strncmp_zero_iff [OF seg_text_strlen, of rd "addr + 8"]
  by (auto simp: running_text_segment_def seg_text_cstr split: sum.splits if_splits)

lemma running_text_segment_none:
  "running_text_segment rd addr = Inr None \<Longrightarrow>
   \<not> (read_u32 rd addr = Inr LC_SEGMENT_64 \<and> mem_holds rd (addr + 8) (SEG_TEXT @ [0]))"
  using strncmp_zero_iff [OF seg_text_strlen, of rd "addr + 8"]
  by (auto simp: running_text_segment_def seg_text_cstr split: sum.splits if_splits)

text \<open>
  The walk that returns has done what \<open>first_text_segment\<close> says of the commands still
  to visit: it records the address of the first text segment among them, with the base
  it was given, or leaves the handle as it was when there is none.
\<close>

lemma getRunningAddresses_loop_first:
  "getRunningAddresses_loop h rd mh ncmds addr i = Inr h' \<Longrightarrow> i \<le> unat ncmds \<Longrightarrow>
   (case first_text_segment rd addr (unat ncmds - i) of
      None \<Rightarrow> h' = h
    | Some v \<Rightarrow> h' = h\<lparr>running_text_addr := v, running_mh := mh\<rparr>)"
proof (induction h rd mh ncmds addr i rule: getRunningAddresses_loop.induct)
  case (1 h rd mh ncmds addr i)
  show ?case
  proof (cases "i < unat ncmds")
    case False
    with "1.prems" show ?thesis
      by (subst (asm) getRunningAddresses_loop.simps) simp
  next
    case True
    then have n: "unat ncmds - i = Suc (unat ncmds - Suc i)" and le: "Suc i \<le> unat ncmds"
      by simp_all
    show ?thesis
    proof (cases "running_text_segment rd addr")
      case (Inl f)
      with True "1.prems" show ?thesis
        by (subst (asm) getRunningAddresses_loop.simps) simp
    next
      case (Inr found)
      show ?thesis
      proof (cases found)
        case (Some v)
        with True Inr "1.prems" have "h' = h\<lparr>running_text_addr := v, running_mh := mh\<rparr>"
          by (subst (asm) getRunningAddresses_loop.simps) simp
        with running_text_segment_found [of rd addr v] Inr Some n show ?thesis
          by simp
      next
        case None
        with Inr have no: "\<not> (read_u32 rd addr = Inr LC_SEGMENT_64 \<and>
            mem_holds rd (addr + 8) (SEG_TEXT @ [0]))"
          by (simp add: running_text_segment_none)
        from True Inr None "1.prems" obtain cmdsize where
          sz: "read_u32 rd (addr + 4) = Inr cmdsize"
          and rest: "getRunningAddresses_loop h rd mh ncmds (addr + ucast cmdsize) (Suc i) = Inr h'"
          by (subst (asm) getRunningAddresses_loop.simps) (auto split: sum.splits)
        from no sz have "first_text_segment rd addr (Suc (unat ncmds - Suc i)) =
            first_text_segment rd (addr + ucast cmdsize) (unat ncmds - Suc i)"
          by auto
        with "1.IH" [OF True Inr None sz rest le] n show ?thesis
          by simp
      qed
    qed
  qed
qed

lemma getRunningAddresses_computed:
  assumes "\<not> kaslr_slide_set h"
    and "getRunningAddresses c rd h slide size_arg = Inr (KERN_SUCCESS, h')"
  shows "kaslr_slide_set h' \<and> disk_text_addr h' = disk_text_addr h \<and>
         kaslr_slide h' = (if slide = 0 then running_text_addr h' - disk_text_addr h else slide) \<and>
         (running_text_addr h = 0 \<longrightarrow>
            (if slide = 0 then findKernelBase c rd = Inr (running_mh h') else running_mh h' = slide) \<and>
            (\<exists>ncmds. read_u32 rd (running_mh h' + 16) = Inr ncmds \<and>
               first_text_segment rd (running_mh h' + sizeof_mach_header_64) (unat ncmds) =
                 Some (running_text_addr h')))"
proof -
  define h1 where "h1 = (if size_arg > 0 then h\<lparr>memory_size := size_arg\<rparr> else h)"
  have h1: "disk_text_addr h1 = disk_text_addr h" "running_text_addr h1 = running_text_addr h"
    by (simp_all add: h1_def)
  from assms obtain base h2 where
    base: "(if slide \<noteq> 0 then Inr slide else findKernelBase c rd) = Inr base"
    and h2: "h' = h2\<lparr>kaslr_slide :=
                  (if slide = 0 then running_text_addr h2 - disk_text_addr h2 else slide),
                kaslr_slide_set := True\<rparr>"
    and ok: "running_text_addr h2 \<noteq> 0"
    and walk: "h2 = h1 \<or> (\<exists>ncmds. read_u32 rd (base + 16) = Inr ncmds \<and>
                 getRunningAddresses_loop h1 rd base ncmds (base + sizeof_mach_header_64) 0 = Inr h2)"
    by (auto simp: getRunningAddresses_def Let_def h1_def split: sum.splits if_splits)
  have cases: "h2 = h1 \<or> (\<exists>ncmds v. read_u32 rd (base + 16) = Inr ncmds \<and>
                 first_text_segment rd (base + sizeof_mach_header_64) (unat ncmds) = Some v \<and>
                 h2 = h1\<lparr>running_text_addr := v, running_mh := base\<rparr>)"
  proof (cases "h2 = h1")
    case True
    then show ?thesis by simp
  next
    case False
    with walk obtain ncmds where
      n: "read_u32 rd (base + 16) = Inr ncmds"
      and l: "getRunningAddresses_loop h1 rd base ncmds (base + sizeof_mach_header_64) 0 = Inr h2"
      by blast
    from getRunningAddresses_loop_first [OF l] False n show ?thesis
      by (auto split: option.splits)
  qed
  from cases h1 have disk: "disk_text_addr h2 = disk_text_addr h"
    by auto
  have found: "(if slide = 0 then findKernelBase c rd = Inr (running_mh h') else running_mh h' = slide) \<and>
            (\<exists>ncmds. read_u32 rd (running_mh h' + 16) = Inr ncmds \<and>
               first_text_segment rd (running_mh h' + sizeof_mach_header_64) (unat ncmds) =
                 Some (running_text_addr h'))"
    if "running_text_addr h = 0"
  proof -
    from that ok h1 cases obtain ncmds v where
      "read_u32 rd (base + 16) = Inr ncmds"
      "first_text_segment rd (base + sizeof_mach_header_64) (unat ncmds) = Some v"
      "h2 = h1\<lparr>running_text_addr := v, running_mh := base\<rparr>"
      by auto
    with h2 base show ?thesis
      by (auto split: if_splits)
  qed
  have "kaslr_slide_set h'" "disk_text_addr h' = disk_text_addr h"
    "kaslr_slide h' = (if slide = 0 then running_text_addr h' - disk_text_addr h else slide)"
    using h2 disk by simp_all
  with found show ?thesis by blast
qed

lemma boot_first_text_segment:
  "read_u32 boot_mem (0x5000 + 16) = Inr 1 \<and>
   first_text_segment boot_mem (0x5000 + sizeof_mach_header_64) (unat (1 :: u32)) = Some 0x5000"
  by code_simp

lemma boot_discovery: "findKernelBase boot_cpu boot_mem = Inr 0x5000"
  by code_simp

lemma boot_slide_discovered:
  "getRunningAddresses boot_cpu boot_mem parsed_handle 0 0 = Inr (KERN_SUCCESS, slid_handle 0x4000)"
  by code_simp

lemma boot_slide_supplied:
  "getRunningAddresses boot_cpu boot_mem parsed_handle 0x5000 0 = Inr (KERN_SUCCESS, slid_handle 0x5000)"
  by code_simp

text \<open>
  A segment command named \<open>__TEXT\<close> that is not among the commands of the image at the
  discovered base plays no part: the slide is the same.
\<close>

lemma stray_slide_discovered:
  "running_text_segment stray_mem 0x7000 = Inr (Some 0x7777) \<and>
   getRunningAddresses boot_cpu stray_mem parsed_handle 0 0 = Inr (KERN_SUCCESS, slid_handle 0x4000)"
  by code_simp

text \<open>
  Claim C3, as stated, fails in its second half. With the image above loaded at \<open>0x5000\<close>
  and its text segment at \<open>0x1000\<close> on disk, a call that supplies \<open>0x5000\<close> as base
  sets the slide to \<open>0x5000\<close>, the supplied value itself, while the displacement
  measured as for a discovered base is \<open>0x5000 - 0x1000 = 0x4000\<close>.
\<close>

theorem getRunningAddresses_supplied_counterexample:
  "map_sum id (\<lambda>(r, h'). (r, kaslr_slide h', running_text_addr h' - disk_text_addr h'))
     (getRunningAddresses boot_cpu boot_mem parsed_handle 0x5000 0) =
   Inr (KERN_SUCCESS, 0x5000, 0x4000)"
  by code_simp

text \<open>
  Claim C3, amended. When \<open>getRunningAddresses\<close> computes the slide (it was not known
  and the call succeeds), the on-disk text address is the one recorded before, and: with
  no base supplied the slide is the running text address less the on-disk text address;
  with a base supplied the slide is the supplied value itself. The running text address
  is the one found at the base: on a handle that has none yet (as every handle whose slide
  is not known has, the two being set together), it is the virtual address of the first
  \<open>__TEXT\<close> segment among the \<open>ncmds\<close> load commands that follow the header at the base
  \<open>findKernelBase\<close> discovered, or at the supplied base.
\<close>

theorem getRunningAddresses_slide:
  assumes "\<not> kaslr_slide_set h"
    and "getRunningAddresses c rd h slide size_arg = Inr (KERN_SUCCESS, h')"
  shows "disk_text_addr h' = disk_text_addr h \<and>
         (slide = 0 \<longrightarrow> kaslr_slide h' = running_text_addr h' - disk_text_addr h) \<and>
         (slide \<noteq> 0 \<longrightarrow> kaslr_slide h' = slide) \<and>
         (running_text_addr h = 0 \<longrightarrow>
            (slide = 0 \<longrightarrow> findKernelBase c rd = Inr (running_mh h')) \<and>
            (slide \<noteq> 0 \<longrightarrow> running_mh h' = slide) \<and>
            (\<exists>ncmds. read_u32 rd (running_mh h' + 16) = Inr ncmds \<and>
               first_text_segment rd (running_mh h' + sizeof_mach_header_64) (unat ncmds) =
                 Some (running_text_addr h'))) \<and>
         (running_text_addr h = 0 \<and> slide = 0 \<longrightarrow>
            (\<exists>base ncmds v. findKernelBase c rd = Inr base \<and>
               read_u32 rd (base + 16) = Inr ncmds \<and>
               first_text_segment rd (base + sizeof_mach_header_64) (unat ncmds) = Some v \<and>
               kaslr_slide h' = v - disk_text_addr h))"
proof -
  note f = getRunningAddresses_computed [OF assms]
  have "\<exists>base ncmds v. findKernelBase c rd = Inr base \<and>
               read_u32 rd (base + 16) = Inr ncmds \<and>
               first_text_segment rd (base + sizeof_mach_header_64) (unat ncmds) = Some v \<and>
               kaslr_slide h' = v - disk_text_addr h"
    if "running_text_addr h = 0" "slide = 0"
  proof -
    from f that obtain ncmds where
      "findKernelBase c rd = Inr (running_mh h')"
      "read_u32 rd (running_mh h' + 16) = Inr ncmds"
      "first_text_segment rd (running_mh h' + sizeof_mach_header_64) (unat ncmds) =
         Some (running_text_addr h')"
      "kaslr_slide h' = running_text_addr h' - disk_text_addr h"
      by auto
    then show ?thesis by blast
  qed
  with f show ?thesis by simp
qed

theorem getRunningAddresses_slide_witness:
  "getRunningAddresses boot_cpu boot_mem parsed_handle 0 0 = Inr (KERN_SUCCESS, slid_handle 0x4000) \<and>
   findKernelBase boot_cpu boot_mem = Inr 0x5000 \<and>
   read_u32 boot_mem (0x5000 + 16) = Inr 1 \<and>
   first_text_segment boot_mem (0x5000 + sizeof_mach_header_64) (unat (1 :: u32)) = Some 0x5000 \<and>
   running_mh (slid_handle 0x4000) = 0x5000 \<and>
   running_text_addr (slid_handle 0x4000) = 0x5000 \<and>
   disk_text_addr parsed_handle = 0x1000 \<and>
   kaslr_slide (slid_handle 0x4000) = 0x5000 - 0x1000 \<and>
   getRunningAddresses boot_cpu boot_mem parsed_handle 0x5000 0 = Inr (KERN_SUCCESS, slid_handle 0x5000) \<and>
   kaslr_slide (slid_handle 0x5000) = 0x5000"
proof -
  have fresh: "\<not> kaslr_slide_set parsed_handle" "running_text_addr parsed_handle = 0"
    by (simp_all add: parsed_handle_def)
  have r: "running_text_addr (slid_handle 0x4000) = 0x5000" "running_mh (slid_handle 0x4000) = 0x5000"
    by (simp_all add: slid_handle_def)
  have d: "disk_text_addr parsed_handle = 0x1000"
    by (simp add: parsed_handle_def foo_handle_def)
  from getRunningAddresses_slide [OF fresh(1) boot_slide_discovered] r d fresh(2)
  have a: "kaslr_slide (slid_handle 0x4000) = 0x5000 - 0x1000"
    and f: "findKernelBase boot_cpu boot_mem = Inr 0x5000"
    by simp_all
  from getRunningAddresses_slide [OF fresh(1) boot_slide_supplied]
  have b: "kaslr_slide (slid_handle 0x5000) = 0x5000"
    by simp
  from a b f r d boot_slide_discovered boot_slide_supplied boot_first_text_segment show ?thesis
    by simp
qed

text \<open>
  Claim C9. Once the slide is known, \<open>getRunningAddresses\<close> returns success at once
  and leaves the handle, the slide included, as it is. So after a call that succeeded, a
  second call succeeds with the same handle whatever the processor, the memory and the
  arguments are: nothing is discovered or walked again.
\<close>

theorem getRunningAddresses_idempotent:
  "(kaslr_slide_set h \<longrightarrow> getRunningAddresses c rd h slide size_arg = Inr (KERN_SUCCESS, h)) \<and>
   (getRunningAddresses c rd h slide size_arg = Inr (KERN_SUCCESS, h') \<longrightarrow>
      getRunningAddresses c' rd' h' slide' size_arg' = Inr (KERN_SUCCESS, h'))"
proof (intro conjI impI)
  show "getRunningAddresses c rd h slide size_arg = Inr (KERN_SUCCESS, h)" if "kaslr_slide_set h"
    using that by (simp add: getRunningAddresses_def)
next
  assume ok: "getRunningAddresses c rd h slide size_arg = Inr (KERN_SUCCESS, h')"
  have "kaslr_slide_set h'"
  proof (cases "kaslr_slide_set h")
    case True
    with ok show ?thesis by (simp add: getRunningAddresses_def)
  next
    case False
    from getRunningAddresses_computed [OF False ok] show ?thesis by simp
  qed
  then show "getRunningAddresses c' rd' h' slide' size_arg' = Inr (KERN_SUCCESS, h')"
    by (simp add: getRunningAddresses_def)
qed

theorem getRunningAddresses_idempotent_witness:
  "kaslr_slide_set (slid_handle 0x4000) \<and>
   getRunningAddresses boot_cpu boot_mem parsed_handle 0 0 = Inr (KERN_SUCCESS, slid_handle 0x4000) \<and>
   getRunningAddresses boot_cpu boot_mem (slid_handle 0x4000) 0 0 = Inr (KERN_SUCCESS, slid_handle 0x4000) \<and>
   getRunningAddresses boot_cpu no_mem (slid_handle 0x4000) 0x7000 0x2000 = Inr (KERN_SUCCESS, slid_handle 0x4000)"
proof -
  note t = getRunningAddresses_idempotent
  have s: "kaslr_slide_set (slid_handle 0x4000)"
    by (simp add: slid_handle_def)
  from t [where h = "slid_handle 0x4000" and c = boot_cpu and rd = boot_mem and slide = 0 and size_arg = 0] s
  have a: "getRunningAddresses boot_cpu boot_mem (slid_handle 0x4000) 0 0 = Inr (KERN_SUCCESS, slid_handle 0x4000)"
    by blast
  from t [where h = parsed_handle and c = boot_cpu and rd = boot_mem and slide = 0 and size_arg = 0
      and h' = "slid_handle 0x4000" and c' = boot_cpu and rd' = no_mem and slide' = "0x7000"
      and size_arg' = "0x2000"]
    boot_slide_discovered
  have b: "getRunningAddresses boot_cpu no_mem (slid_handle 0x4000) 0x7000 0x2000 = Inr (KERN_SUCCESS, slid_handle 0x4000)"
    by blast
  from s a b boot_slide_discovered show ?thesis by simp
qed

section \<open>Facts about write protection\<close>

lemma setWPBit_set:
  "setWPBit c True =
     (let v = cr0 c OR CR0_WP;
          new = cr0_write c (cr0 c) v
      in if new AND CR0_WP \<noteq> 0
         then (KERN_SUCCESS, c\<lparr>cr0 := new, trace := trace c @ [READ_CR0, WRITE_CR0 v, READ_CR0]\<rparr>)
         else (KERN_FAILURE,
               c\<lparr>cr0 := new, trace := trace c @ [READ_CR0, WRITE_CR0 v, READ_CR0, READ_CR0]\<rparr>))"
  by (simp add: setWPBit_def get_cr0_def set_cr0_def Let_def)

lemma setWPBit_clear:
  "setWPBit c False =
     (let v = cr0 c AND NOT CR0_WP;
          new = cr0_write c (cr0 c) v
      in (if new AND CR0_WP = 0 then KERN_SUCCESS else KERN_FAILURE,
          c\<lparr>cr0 := new, trace := trace c @ [READ_CR0, WRITE_CR0 v, READ_CR0, READ_CR0]\<rparr>))"
  by (simp add: setWPBit_def get_cr0_def set_cr0_def Let_def)

text \<open>
  Claim C8. When enabling, \<open>cli\<close> is executed before the write to CR0 that clears the WP
  bit. When restoring, \<open>sti\<close> is executed last, after the write that sets the bit. The
  return code is success exactly when CR0, read again after the write, has the WP bit as
  asked. A failed update returns failure with interrupts enabled, \<open>sti\<close> being the
  last instruction; a successful enable returns with interrupts disabled.
\<close>

theorem setKernelWriting_order:
  "trace (snd (setKernelWriting c True)) =
     trace c @ [CLI, READ_CR0, WRITE_CR0 (cr0 c AND NOT CR0_WP), READ_CR0, READ_CR0] @
       (if fst (setKernelWriting c True) = KERN_SUCCESS then [] else [STI]) \<and>
   trace (snd (setKernelWriting c False)) =
     trace c @ [READ_CR0, WRITE_CR0 (cr0 c OR CR0_WP), READ_CR0] @
       (if fst (setKernelWriting c False) = KERN_SUCCESS then [] else [READ_CR0]) @ [STI] \<and>
   ((fst (setKernelWriting c enable) = KERN_SUCCESS) =
      ((cr0 (snd (setKernelWriting c enable)) AND CR0_WP \<noteq> 0) = (\<not> enable))) \<and>
   (fst (setKernelWriting c enable) = KERN_FAILURE \<longrightarrow>
      interrupts (snd (setKernelWriting c enable)) \<and>
      last (trace (snd (setKernelWriting c enable))) = STI) \<and>
   (fst (setKernelWriting c True) = KERN_SUCCESS \<longrightarrow>
      \<not> interrupts (snd (setKernelWriting c True))) \<and>
   interrupts (snd (setKernelWriting c False))"
proof (intro conjI)
  show "trace (snd (setKernelWriting c True)) =
     trace c @ [CLI, READ_CR0, WRITE_CR0 (cr0 c AND NOT CR0_WP), READ_CR0, READ_CR0] @
       (if fst (setKernelWriting c True) = KERN_SUCCESS then [] else [STI])"
    by (simp add: setKernelWriting_def setWPBit_clear cli_def sti_def Let_def)
  show "trace (snd (setKernelWriting c False)) =
     trace c @ [READ_CR0, WRITE_CR0 (cr0 c OR CR0_WP), READ_CR0] @
       (if fst (setKernelWriting c False) = KERN_SUCCESS then [] else [READ_CR0]) @ [STI]"
    by (simp add: setKernelWriting_def setWPBit_set sti_def Let_def)
  show "(fst (setKernelWriting c enable) = KERN_SUCCESS) =
      ((cr0 (snd (setKernelWriting c enable)) AND CR0_WP \<noteq> 0) = (\<not> enable))"
    by (cases enable) (simp_all add: setKernelWriting_def setWPBit_set setWPBit_clear cli_def sti_def Let_def)
  show "fst (setKernelWriting c enable) = KERN_FAILURE \<longrightarrow>
      interrupts (snd (setKernelWriting c enable)) \<and>
      last (trace (snd (setKernelWriting c enable))) = STI"
    by (cases enable) (simp_all add: setKernelWriting_def setWPBit_set setWPBit_clear cli_def sti_def Let_def)
  show "fst (setKernelWriting c True) = KERN_SUCCESS \<longrightarrow>
      \<not> interrupts (snd (setKernelWriting c True))"
    by (simp add: setKernelWriting_def setWPBit_clear cli_def sti_def Let_def)
  show "interrupts (snd (setKernelWriting c False))"
    by (simp add: setKernelWriting_def setWPBit_set sti_def Let_def)
qed

theorem setKernelWriting_order_witness:
  "fst (setKernelWriting pinned_cpu True) = KERN_FAILURE \<and>
   interrupts (snd (setKernelWriting pinned_cpu True)) \<and>
   last (trace (snd (setKernelWriting pinned_cpu True))) = STI \<and>
   trace (snd (setKernelWriting pinned_cpu True)) =
     [CLI, READ_CR0, WRITE_CR0 0x80000033, READ_CR0, READ_CR0, STI] \<and>
   fst (setKernelWriting boot_cpu True) = KERN_SUCCESS \<and>
   \<not> interrupts (snd (setKernelWriting boot_cpu True)) \<and>
   trace (snd (setKernelWriting boot_cpu True)) =
     [CLI, READ_CR0, WRITE_CR0 0x80000033, READ_CR0, READ_CR0] \<and>
   trace (snd (setKernelWriting (snd (setKernelWriting boot_cpu True)) False)) =
     [CLI, READ_CR0, WRITE_CR0 0x80000033, READ_CR0, READ_CR0,
      READ_CR0, WRITE_CR0 0x80010033, READ_CR0, STI]"
proof -
  note t = setKernelWriting_order
  have f: "fst (setKernelWriting pinned_cpu True) = KERN_FAILURE"
    by code_simp
  have s: "fst (setKernelWriting boot_cpu True) = KERN_SUCCESS"
    by code_simp
  have s': "fst (setKernelWriting (snd (setKernelWriting boot_cpu True)) False) = KERN_SUCCESS"
    by code_simp
  have c1: "cr0 pinned_cpu AND NOT CR0_WP = 0x80000033" "trace pinned_cpu = []"
    by code_simp+
  have c2: "cr0 boot_cpu AND NOT CR0_WP = 0x80000033" "trace boot_cpu = []"
    by code_simp+
  have c3: "cr0 (snd (setKernelWriting boot_cpu True)) OR CR0_WP = 0x80010033"
    by code_simp
  from t [where c = pinned_cpu and enable = True] f c1
  have a: "interrupts (snd (setKernelWriting pinned_cpu True))"
    "last (trace (snd (setKernelWriting pinned_cpu True))) = STI"
    "trace (snd (setKernelWriting pinned_cpu True)) =
       [CLI, READ_CR0, WRITE_CR0 0x80000033, READ_CR0, READ_CR0, STI]"
    by simp_all
  from t [where c = boot_cpu and enable = True] s c2
  have b: "\<not> interrupts (snd (setKernelWriting boot_cpu True))"
    "trace (snd (setKernelWriting boot_cpu True)) =
       [CLI, READ_CR0, WRITE_CR0 0x80000033, READ_CR0, READ_CR0]"
    by simp_all
  from t [where c = "snd (setKernelWriting boot_cpu True)" and enable = False] s' c3 b(2)
  have c: "trace (snd (setKernelWriting (snd (setKernelWriting boot_cpu True)) False)) =
     [CLI, READ_CR0, WRITE_CR0 0x80000033, READ_CR0, READ_CR0,
      READ_CR0, WRITE_CR0 0x80010033, READ_CR0, STI]"
    by simp
  from f s a b c show ?thesis by simp
qed

section \<open>Facts about reading from disk\<close>

text \<open>
  What holds of the short read itself: when \<open>uio_create\<close> has given a descriptor and the
  read transfers fewer than \<open>linkedit_size\<close> bytes, \<open>readLinkedit\<close> fails.
\<close>

lemma readLinkedit_short_read:
  assumes "file_buf h = None"
    and "Buffer_create k (unat (linkedit_size h)) = Some fresh"
    and "uio_create_ok k"
    and "VNOP_READ k vnode (fat_offset h + linkedit_fileoff h) (unat (linkedit_size h)) = (e, got)"
    and "length got < unat (linkedit_size h)"
  shows "\<exists>h'. readLinkedit k h vnode = Inr (KERN_FAILURE, h')"
  using assms
  by (simp add: readLinkedit_def readFileData_def Let_def EINVAL_def)

text \<open>
  What holds when \<open>uio_create\<close> gives null: success, with the fresh block as it was
  allocated.
\<close>

lemma readLinkedit_no_uio:
  assumes "file_buf h = None"
    and "Buffer_create k (unat (linkedit_size h)) = Some fresh"
    and "\<not> uio_create_ok k"
  shows "readLinkedit k h vnode = Inr (KERN_SUCCESS, h\<lparr>linkedit_buf := Some fresh\<rparr>)"
  using assms
  by (simp add: readLinkedit_def readFileData_def Let_def)

lemma readLinkedit_short_io:
  "map_sum id fst (readLinkedit short_io unread_handle 2) = Inr KERN_FAILURE"
  by code_simp

lemma readLinkedit_good_io:
  "readLinkedit good_io unread_handle 2 = Inr (KERN_SUCCESS, parsed_handle)"
  by code_simp

text \<open>
  Claim C7 at its failing input. When \<open>uio_create\<close> returns null, \<open>readFileData\<close>
  returns its local \<open>error\<close>, still 0, and \<open>readLinkedit\<close> reports success although no
  byte of the file was read: the buffer holds what the allocator left in it.
\<close>

theorem readLinkedit_uio_create_null:
  "readFileData no_uio (replicate 44 0xAA) 0x2000 44 2 = (0, replicate 44 0xAA) \<and>
   readLinkedit no_uio unread_handle 2 =
     Inr (KERN_SUCCESS, unread_handle\<lparr>linkedit_buf := Some (replicate 44 0xAA)\<rparr>)"
  by code_simp

section \<open>Facts about the header walk\<close>

text \<open>
  The walk makes exactly \<open>ncmds\<close> rounds, and each round moves on by the size the
  command declares, whatever that size is.
\<close>

lemma processMachHeader_loop_round:
  assumes "i < unat ncmds"
    and "processLoadCommand h rd addr = Inr h'"
    and "read_u32 rd (addr + 4) = Inr cmdsize"
  shows "processMachHeader_loop h rd ncmds addr i =
         processMachHeader_loop h' rd ncmds (addr + ucast cmdsize) (Suc i)"
  using assms by (subst processMachHeader_loop.simps) simp

lemma processMachHeader_loop_done:
  assumes "\<not> i < unat ncmds"
  shows "processMachHeader_loop h rd ncmds addr i = Inr h"
  using assms by (subst processMachHeader_loop.simps) simp

lemma processMachHeader_disk_header:
  "processMachHeader blank_handle disk_header = Inr unread_handle"
  by code_simp

text \<open>
  Claim C4 at its failing inputs. A command whose declared size leads past the 4096-byte
  header buffer makes the next round read outside the buffer; nothing reports a malformed
  header. A command of declared size 0 is read again in every remaining round, and the
  walk returns normally with the fields of that command.
\<close>

theorem processMachHeader_bad_cmdsize:
  "length oversize_header = 4096 \<and>
   processMachHeader blank_handle oversize_header = Inl BadAccess \<and>
   length zero_size_header = 4096 \<and>
   processMachHeader blank_handle zero_size_header =
     Inr (blank_handle\<lparr>symboltable_fileoff := 0x2000, symboltable_nr_symbols := 2,
                        stringtable_fileoff := 0x2020\<rparr>)"
  by code_simp

section \<open>Facts about the candidate paths\<close>

text \<open>
  One round of the loop, by what happens to the candidate. A path that does not open and a
  kernel file that is not the running kernel leave the resources as they were. A file that
  opens and does not parse leaves its vnode among the references held.
\<close>

lemma init_loop_open_fails:
  assumes "vnode_lookup e path = None"
  shows "init_loop e h s (path # paths) = init_loop e h s paths"
  using assms by (simp add: vfs_context_create_def vfs_context_rele_def)

lemma init_loop_other_kernel:
  assumes "vnode_lookup e path = Some vnode"
    and "readMachHeader e h vnode = (KERN_SUCCESS, h', machHeader)"
    and "isKernel h'"
    and "isCurrentKernel (processor e) (kernel_memory e) machHeader = Inr False"
  shows "init_loop e h s (path # paths) = init_loop e h' s paths"
  using assms by (simp add: vfs_context_create_def vfs_context_rele_def vnode_put_def)

lemma init_loop_unparsed:
  assumes "vnode_lookup e path = Some vnode"
    and "readMachHeader e h vnode = (KERN_FAILURE, h', machHeader)"
  shows "init_loop e h s (path # paths) =
         init_loop e h' (s\<lparr>iocounts := vnode # iocounts s\<rparr>) paths"
  using assms by (simp add: vfs_context_create_def vfs_context_rele_def)

text \<open>The identity check on the three headers at hand.\<close>

lemma isCurrentKernel_disk_header:
  "isCurrentKernel boot_cpu live_mem disk_header = Inr True"
  by code_simp

lemma isCurrentKernel_other_header:
  "isCurrentKernel boot_cpu live_mem other_header = Inr False"
  by code_simp

lemma isCurrentKernel_no_uuid:
  "isCurrentKernel boot_cpu live_mem zero_size_header = Inr False"
  by code_simp

text \<open>
  The scenario of claim C5 itself: the first path does not open, the second one is the
  image. The handle is the one built from the second file, and no vnode and no context is
  held afterwards. The same holds when the first path is a kernel with another UUID.
\<close>

lemma init_bad_then_good:
  "init disk_env blank_handle no_files [''/bad/path'', ''/good/path''] =
     Inr (KERN_SUCCESS, parsed_handle, no_files)"
  by code_simp

lemma init_old_then_good:
  "init disk_env blank_handle no_files [''/old/kernel'', ''/good/path''] =
     Inr (KERN_SUCCESS, parsed_handle, no_files)"
  by code_simp

text \<open>
  Claim C5 at its failing input. The first path opens but its header does not parse. The
  loop goes on to the next candidate without \<open>vnode_put\<close>: when it stops at the second
  file, the running kernel's, the references of both vnodes are held, and when \<open>init\<close>
  returns the reference to vnode 1 is still held. The same reference is left behind
  when the unparsable file is the only candidate and \<open>init\<close> fails.
\<close>

theorem init_leaks_unparsed_vnode:
  "init_loop disk_env blank_handle no_files [''/unparsable'', ''/good/path''] =
     Inr (Some (2, disk_header), blank_handle, \<lparr>iocounts = [2, 1], contexts = 1\<rparr>) \<and>
   init disk_env blank_handle no_files [''/unparsable'', ''/good/path''] =
     Inr (KERN_SUCCESS, parsed_handle, \<lparr>iocounts = [1], contexts = 0\<rparr>) \<and>
   init disk_env blank_handle no_files [''/unparsable''] =
     Inr (KERN_FAILURE, blank_handle, \<lparr>iocounts = [1], contexts = 0\<rparr>)"
  by code_simp

end
